theory Spec2Isabelle
  imports Main "HOL-Library.Multiset"
begin

section \<open>JavaScript strings\<close>

text \<open>
  A string of the program is modelled as a \<^typ>\<open>string\<close>: a list of code units below 256
  (the Latin-1 range of UTF-16). Everything the case files and folios of the application hold
  (ASCII plus the accented vowels of Spanish) lies in that range. \<open>codeUnit\<close> reads a
  character as its number.
\<close>

definition codeUnit :: "char \<Rightarrow> int" where
  "codeUnit c = of_char c"

text \<open>
  The class \<open>\s\<close> of a regular expression, which is also what \<open>String.prototype.trim\<close>
  strips: tab, line feed, vertical tab, form feed, carriage return, space and the no-break
  space U+00A0 are its members below 256.
\<close>

definition isSpace :: "char \<Rightarrow> bool" where
  "isSpace c = (codeUnit c \<in> {9, 10, 11, 12, 13, 32, 160})"

definition isDigit :: "char \<Rightarrow> bool" where
  "isDigit c = (48 \<le> codeUnit c \<and> codeUnit c \<le> 57)"

text \<open>
  \<open>String.prototype.toUpperCase\<close>, character by character: \<open>a\<close>..\<open>z\<close> and the Latin-1
  letters U+00E0..U+00FE (without the division sign U+00F7) move down by 32, the sharp s
  U+00DF becomes \<open>SS\<close>. The upper-case forms of U+00B5 and U+00FF lie above 255; the model
  keeps these two characters as they are.
\<close>

definition upperChar :: "char \<Rightarrow> string" where
  "upperChar c =
     (let n = codeUnit c in
      if 97 \<le> n \<and> n \<le> 122 then [char_of (n - 32)]
      else if n = 223 then ''SS''
      else if 224 \<le> n \<and> n \<le> 254 \<and> n \<noteq> 247 then [char_of (n - 32)]
      else [c])"

definition toUpperCase :: "string \<Rightarrow> string" where
  "toUpperCase s = concat (map upperChar s)"

text \<open>
  \<open>String.prototype.toLowerCase\<close>: \<open>A\<close>..\<open>Z\<close> and U+00C0..U+00DE (without the
  multiplication sign U+00D7) move up by 32.
\<close>

definition lowerChar :: "char \<Rightarrow> char" where
  "lowerChar c =
     (let n = codeUnit c in
      if 65 \<le> n \<and> n \<le> 90 then char_of (n + 32)
      else if 192 \<le> n \<and> n \<le> 222 \<and> n \<noteq> 215 then char_of (n + 32)
      else c)"

definition toLowerCase :: "string \<Rightarrow> string" where
  "toLowerCase s = map lowerChar s"

text \<open>
  \<open>s.replace(/[class]+/g, r)\<close>: every maximal run of characters of the class is replaced
  by \<open>r\<close>.
\<close>

function replaceRuns :: "(char \<Rightarrow> bool) \<Rightarrow> string \<Rightarrow> string \<Rightarrow> string" where
  "replaceRuns p r [] = []"
| "replaceRuns p r (c # cs) =
     (if p c then r @ replaceRuns p r (dropWhile p cs) else c # replaceRuns p r cs)"
  by pat_completeness auto
termination
  by (relation "measure (\<lambda>(p, r, s). length s)")
     (auto intro: le_imp_less_Suc length_dropWhile_le)

definition trim :: "string \<Rightarrow> string" where
  "trim s = rev (dropWhile isSpace (rev (dropWhile isSpace s)))"

text \<open>\<open>s.includes(t)\<close>: \<open>t\<close> occurs in \<open>s\<close> as a contiguous block.\<close>

fun includes_str :: "string \<Rightarrow> string \<Rightarrow> bool" where
  "includes_str [] t = (t = [])"
| "includes_str (c # cs) t = (take (length t) (c # cs) = t \<or> includes_str cs t)"

text \<open>The relational operator \<open><\<close> on two strings: lexicographic on code units.\<close>

fun strLess :: "string \<Rightarrow> string \<Rightarrow> bool" where
  "strLess [] [] = False"
| "strLess [] (y # ys) = True"
| "strLess (x # xs) [] = False"
| "strLess (x # xs) (y # ys) = (if x = y then strLess xs ys else codeUnit x < codeUnit y)"

text \<open>Decimal rendering of a number, as \<open>String(n)\<close> and template literals produce it.\<close>

function decimalDigits :: "int \<Rightarrow> string" where
  "decimalDigits i =
     (if i < 10 then [char_of (48 + i)]
      else decimalDigits (i div 10) @ [char_of (48 + i mod 10)])"
  by pat_completeness auto
termination
  by (relation "measure nat") auto

definition intToString :: "int \<Rightarrow> string" where
  "intToString i = (if i < 0 then CHR ''-'' # decimalDigits (- i) else decimalDigits i)"

definition natToString :: "nat \<Rightarrow> string" where
  "natToString n = decimalDigits (int n)"

definition padStart :: "nat \<Rightarrow> char \<Rightarrow> string \<Rightarrow> string" where
  "padStart n c s = replicate (n - length s) c @ s"

text \<open>The operator \<open>??\<close>: the left operand unless it is null or undefined.\<close>

definition orElse :: "'a option \<Rightarrow> 'a \<Rightarrow> 'a" where
  "orElse v d = (case v of None \<Rightarrow> d | Some x \<Rightarrow> x)"

section \<open>Field helpers (lib/utils)\<close>

definition FIELD_LIMITS_folio :: nat where "FIELD_LIMITS_folio = 32"
definition FIELD_LIMITS_tipoDerecho :: nat where "FIELD_LIMITS_tipoDerecho = 120"
definition FIELD_LIMITS_autoridad :: nat where "FIELD_LIMITS_autoridad = 160"
definition FIELD_LIMITS_visitador :: nat where "FIELD_LIMITS_visitador = 120"
definition FIELD_LIMITS_notas :: nat where "FIELD_LIMITS_notas = 2500"

text \<open>\<open>value.replace(/\s+/g, ' ').trim()\<close>\<close>

definition normalizeWhitespace :: "string \<Rightarrow> string" where
  "normalizeWhitespace v = trim (replaceRuns isSpace '' '' v)"

text \<open>\<open>normalizeWhitespace(value).toUpperCase().replace(/[\s/]+/g, '-')\<close>\<close>

definition normalizeFolio :: "string \<Rightarrow> string" where
  "normalizeFolio v =
     replaceRuns (\<lambda>c. isSpace c \<or> c = CHR ''/'') ''-'' (toUpperCase (normalizeWhitespace v))"

text \<open>
  The test of \<open>/^CEDHBC[-/][0-9]{4}[-/][0-9]{3,6}$/i\<close>: six letters that are \<open>CEDHBC\<close> in
  either case, a separator, four digits, a separator, three to six digits, and nothing else.
  Under the flag \<open>i\<close> a pattern letter matches exactly its two ASCII forms.
\<close>

definition asciiUpper :: "char \<Rightarrow> char" where
  "asciiUpper c = (if 97 \<le> codeUnit c \<and> codeUnit c \<le> 122 then char_of (codeUnit c - 32) else c)"

definition isSeparator :: "char \<Rightarrow> bool" where
  "isSeparator c = (c = CHR ''-'' \<or> c = CHR ''/'')"

definition folioRegexTest :: "string \<Rightarrow> bool" where
  "folioRegexTest s =
     (let tail = drop 12 s in
      map asciiUpper (take 6 s) = ''CEDHBC''
      \<and> length s \<ge> 12
      \<and> isSeparator (s ! 6)
      \<and> list_all isDigit (take 4 (drop 7 s))
      \<and> isSeparator (s ! 11)
      \<and> 3 \<le> length tail \<and> length tail \<le> 6 \<and> list_all isDigit tail)"

definition isValidFolio :: "string \<Rightarrow> bool" where
  "isValidFolio v = folioRegexTest (normalizeWhitespace v)"

text \<open>\<open>normalizeWhitespace(value).slice(0, Math.max(0, maxLength))\<close>\<close>

definition truncateText :: "string \<Rightarrow> nat \<Rightarrow> string" where
  "truncateText v maxLength = take maxLength (normalizeWhitespace v)"


section \<open>Dates and the host platform\<close>

text \<open>
  What the program asks of the JavaScript engine and cannot compute itself: parsing a date
  string (\<open>new Date(s).getTime()\<close>, \<open>None\<close> for an invalid date), the clock
  (\<open>new Date().getTime()\<close>), local midnight of an instant (\<open>setHours(0, 0, 0, 0)\<close>) and
  the Spanish month label of \<open>toLocaleDateString\<close>. Instants are milliseconds since the
  epoch.
\<close>

record platform =
  dateParse :: "string \<Rightarrow> int option"
  nowMs :: int
  startOfLocalDay :: "int \<Rightarrow> int"
  monthYearLabel :: "int \<Rightarrow> string"

definition msPerDay :: int where
  "msPerDay = 86400000"

text \<open>
  \<open>getUTCFullYear\<close>, \<open>getUTCMonth() + 1\<close> and \<open>getUTCDate\<close> of an instant: the proleptic
  Gregorian date of its day number, computed era by era (400 years are 146097 days).
\<close>

definition civilFromDays :: "int \<Rightarrow> int \<times> int \<times> int" where
  "civilFromDays days =
     (let z = days + 719468;
          era = z div 146097;
          doe = z - era * 146097;
          yoe = (doe - doe div 1460 + doe div 36524 - doe div 146096) div 365;
          doy = doe - (365 * yoe + yoe div 4 - yoe div 100);
          mp = (5 * doy + 2) div 153;
          d = doy - (153 * mp + 2) div 5 + 1;
          m = (if mp < 10 then mp + 3 else mp - 9);
          y = yoe + era * 400 + (if m \<le> 2 then 1 else 0)
      in (y, m, d))"

definition utcFields :: "int \<Rightarrow> int \<times> int \<times> int" where
  "utcFields t = civilFromDays (t div msPerDay)"

definition twoDigits :: "int \<Rightarrow> string" where
  "twoDigits n = padStart 2 (CHR ''0'') (intToString n)"

text \<open>
  \<open>normalizeDateOnly\<close>: the empty string and an invalid date give null; otherwise the UTC
  year (unpadded, as the template literal prints it), month and day.
\<close>

fun dateOnlyString :: "int \<times> int \<times> int \<Rightarrow> string" where
  "dateOnlyString (year, month, day) =
     intToString year @ ''-'' @ twoDigits month @ ''-'' @ twoDigits day"

definition normalizeDateOnly :: "platform \<Rightarrow> string \<Rightarrow> string option" where
  "normalizeDateOnly env v =
     (if v = [] then None
      else case dateParse env v of
        None \<Rightarrow> None
      | Some t \<Rightarrow> Some (dateOnlyString (utcFields t)))"

text \<open>
  \<open>isFutureDate\<close>: the normalized date at \<open>T00:00:00\<close> (local time) against local midnight
  of today; a comparison with an invalid date is false.
\<close>

definition isFutureDate :: "platform \<Rightarrow> string \<Rightarrow> bool" where
  "isFutureDate env v =
     (case normalizeDateOnly env v of
        None \<Rightarrow> False
      | Some normalized \<Rightarrow>
          (case dateParse env (normalized @ ''T00:00:00'') of
             None \<Rightarrow> False
           | Some target \<Rightarrow> target > startOfLocalDay env (nowMs env)))"

text \<open>
  \<open>toISOString().split('T')[0]\<close> of a valid instant: four digits for the years 0 to 9999,
  a sign and six digits otherwise.
\<close>

fun isoDateString :: "int \<times> int \<times> int \<Rightarrow> string" where
  "isoDateString (year, month, day) =
     (if 0 \<le> year \<and> year \<le> 9999 then padStart 4 (CHR ''0'') (intToString year)
      else (if year < 0 then CHR ''-'' else CHR ''+'')
           # padStart 6 (CHR ''0'') (intToString \<bar>year\<bar>))
     @ ''-'' @ twoDigits month @ ''-'' @ twoDigits day"

definition isoDate :: "int \<Rightarrow> string" where
  "isoDate t = isoDateString (utcFields t)"

definition todayISO :: "platform \<Rightarrow> string" where
  "todayISO env = isoDate (nowMs env)"

definition getMesRegistro :: "platform \<Rightarrow> string \<Rightarrow> string" where
  "getMesRegistro env dateStr =
     (case dateParse env (dateStr @ ''T00:00:00'') of
        None \<Rightarrow> monthYearLabel env (nowMs env)
      | Some t \<Rightarrow> monthYearLabel env t)"

text \<open>The two accented states as the program writes them; U+00F3 is the accented o.\<close>

definition EN_INTEGRACION :: string where
  "EN_INTEGRACION = ''En integraci'' @ [CHR 0xF3] @ ''n''"

definition EN_CONCILIACION :: string where
  "EN_CONCILIACION = ''En conciliaci'' @ [CHR 0xF3] @ ''n''"

text \<open>The five states of \<open>ESTADOS\<close>.\<close>

definition ESTADOS :: "string list" where
  "ESTADOS = [''Admitida'', EN_INTEGRACION, EN_CONCILIACION, ''Resuelta'', ''Archivada'']"

section \<open>Case records and their validators (ExpedientesContext)\<close>

record Expediente =
  e_id :: string
  e_folio :: string
  e_fecha_presentacion :: string
  e_tipo_derecho :: string
  e_autoridad_responsable :: string
  e_visitador_asignado :: string
  e_estado :: string
  e_fecha_ultimo_movimiento :: string
  e_notas_seguimiento :: string
  e_mes_registro :: string
  e_created_at :: string
  e_updated_at :: string

text \<open>
  The argument of \<open>createExpediente\<close>. The four fields the code reads through \<open>??\<close> may be
  absent (\<open>None\<close> is null or undefined).
\<close>

record ExpedienteInsert =
  i_folio :: string
  i_fecha_presentacion :: string
  i_tipo_derecho :: string
  i_autoridad_responsable :: string
  i_visitador_asignado :: string
  i_estado :: "string option"
  i_fecha_ultimo_movimiento :: "string option"
  i_notas_seguimiento :: "string option"
  i_mes_registro :: "string option"

record ExpedienteInsertRow =
  ir_folio :: string
  ir_fecha_presentacion :: string
  ir_tipo_derecho :: string
  ir_autoridad_responsable :: string
  ir_visitador_asignado :: string
  ir_estado :: string
  ir_fecha_ultimo_movimiento :: string
  ir_notas_seguimiento :: string
  ir_mes_registro :: string

text \<open>
  The patch of \<open>updateExpediente\<close>: a field is \<open>Some s\<close> when \<open>typeof\<close> finds a string
  there. The validator never reads \<open>updated_at\<close>, which the model leaves out.
\<close>

record ExpedienteUpdate =
  u_folio :: "string option"
  u_fecha_presentacion :: "string option"
  u_tipo_derecho :: "string option"
  u_autoridad_responsable :: "string option"
  u_visitador_asignado :: "string option"
  u_estado :: "string option"
  u_fecha_ultimo_movimiento :: "string option"
  u_notas_seguimiento :: "string option"
  u_mes_registro :: "string option"

record ExpedienteUpdateRow =
  ur_folio :: "string option"
  ur_fecha_presentacion :: "string option"
  ur_tipo_derecho :: "string option"
  ur_autoridad_responsable :: "string option"
  ur_visitador_asignado :: "string option"
  ur_estado :: "string option"
  ur_fecha_ultimo_movimiento :: "string option"
  ur_notas_seguimiento :: "string option"
  ur_mes_registro :: "string option"

text \<open>
  The validators return \<open>{ payload, error }\<close> with exactly one of the two set:
  \<open>Inl reason\<close> is \<open>{ payload: null, error: reason }\<close>, \<open>Inr p\<close> is
  \<open>{ payload: p, error: null }\<close>.
\<close>

definition normalizeCreatePayload :: "platform \<Rightarrow> ExpedienteInsert \<Rightarrow> string + ExpedienteInsertRow" where
  "normalizeCreatePayload env d =
     (let folio = take FIELD_LIMITS_folio (normalizeFolio (i_folio d)) in
      if folio = [] then Inl ''El folio es obligatorio.''
      else if \<not> isValidFolio folio then Inl ''El folio debe usar formato CEDHBC-AAAA-000.''
      else case normalizeDateOnly env (i_fecha_presentacion d) of
        None \<Rightarrow> Inl ''La fecha de presentacion es invalida.''
      | Some fechaPresentacion \<Rightarrow>
      if isFutureDate env fechaPresentacion
      then Inl ''La fecha de presentacion no puede ser futura.''
      else let tipoDerecho = truncateText (i_tipo_derecho d) FIELD_LIMITS_tipoDerecho in
      if tipoDerecho = [] then Inl ''El tipo de derecho es obligatorio.''
      else let autoridad = truncateText (i_autoridad_responsable d) FIELD_LIMITS_autoridad in
      if autoridad = [] then Inl ''La autoridad responsable es obligatoria.''
      else let visitador = truncateText (i_visitador_asignado d) FIELD_LIMITS_visitador in
      if visitador = [] then Inl ''El visitador asignado es obligatorio.''
      else let estado = orElse (i_estado d) ''Admitida'' in
      if estado \<notin> set ESTADOS then Inl ''El estado seleccionado no es valido.''
      else let notas = take FIELD_LIMITS_notas
                         (trim (orElse (i_notas_seguimiento d) [])) in
      (case normalizeDateOnly env
              (orElse (i_fecha_ultimo_movimiento d) fechaPresentacion) of
        None \<Rightarrow> Inl ''La fecha de ultimo movimiento es invalida.''
      | Some fechaMovimiento \<Rightarrow>
      if isFutureDate env fechaMovimiento
      then Inl ''La fecha de ultimo movimiento no puede ser futura.''
      else if strLess fechaMovimiento fechaPresentacion
      then Inl ''La fecha de ultimo movimiento no puede ser anterior a la fecha de presentacion.''
      else let given = truncateText
                         (orElse (i_mes_registro d) (getMesRegistro env fechaPresentacion)) 60;
               mesRegistro = (if given = [] then getMesRegistro env fechaPresentacion else given)
      in Inr \<lparr> ir_folio = folio,
               ir_fecha_presentacion = fechaPresentacion,
               ir_tipo_derecho = tipoDerecho,
               ir_autoridad_responsable = autoridad,
               ir_visitador_asignado = visitador,
               ir_estado = estado,
               ir_fecha_ultimo_movimiento = fechaMovimiento,
               ir_notas_seguimiento = notas,
               ir_mes_registro = mesRegistro \<rparr>))"


text \<open>
  \<open>normalizeUpdatePayload\<close> fills \<open>payload\<close> field by field and leaves at the first
  failure. Each block \<open>if (typeof data.x === 'string') { ... }\<close> of the source is one step
  below, in the source's order; \<open>andThen\<close> is the early return.
\<close>

definition andThen :: "'e + 'a \<Rightarrow> ('a \<Rightarrow> 'e + 'b) \<Rightarrow> 'e + 'b" where
  "andThen r f = (case r of Inl e \<Rightarrow> Inl e | Inr p \<Rightarrow> f p)"

text \<open>Truthiness of an optional string: undefined and the empty string are falsy.\<close>

definition truthy :: "string option \<Rightarrow> bool" where
  "truthy v = (case v of None \<Rightarrow> False | Some s \<Rightarrow> s \<noteq> [])"

definition emptyUpdateRow :: ExpedienteUpdateRow where
  "emptyUpdateRow =
     \<lparr> ur_folio = None, ur_fecha_presentacion = None, ur_tipo_derecho = None,
       ur_autoridad_responsable = None, ur_visitador_asignado = None, ur_estado = None,
       ur_fecha_ultimo_movimiento = None, ur_notas_seguimiento = None, ur_mes_registro = None \<rparr>"

definition upd_folio :: "ExpedienteUpdate \<Rightarrow> ExpedienteUpdateRow \<Rightarrow> string + ExpedienteUpdateRow" where
  "upd_folio d p =
     (case u_folio d of
        None \<Rightarrow> Inr p
      | Some v \<Rightarrow>
          (let folio = take FIELD_LIMITS_folio (normalizeFolio v) in
           if folio = [] then Inl ''El folio no puede quedar vacio.''
           else if \<not> isValidFolio folio then Inl ''El folio debe usar formato CEDHBC-AAAA-000.''
           else Inr (p\<lparr>ur_folio := Some folio\<rparr>)))"

definition upd_fecha_presentacion ::
  "platform \<Rightarrow> ExpedienteUpdate \<Rightarrow> ExpedienteUpdateRow \<Rightarrow> string + ExpedienteUpdateRow" where
  "upd_fecha_presentacion env d p =
     (case u_fecha_presentacion d of
        None \<Rightarrow> Inr p
      | Some v \<Rightarrow>
          (case normalizeDateOnly env v of
             None \<Rightarrow> Inl ''La fecha de presentacion es invalida.''
           | Some fecha \<Rightarrow>
               if isFutureDate env fecha then Inl ''La fecha de presentacion no puede ser futura.''
               else (let p1 = p\<lparr>ur_fecha_presentacion := Some fecha\<rparr> in
                     Inr (if \<not> truthy (ur_mes_registro p1)
                          then p1\<lparr>ur_mes_registro := Some (getMesRegistro env fecha)\<rparr>
                          else p1))))"

definition upd_tipo_derecho :: "ExpedienteUpdate \<Rightarrow> ExpedienteUpdateRow \<Rightarrow> string + ExpedienteUpdateRow" where
  "upd_tipo_derecho d p =
     (case u_tipo_derecho d of
        None \<Rightarrow> Inr p
      | Some v \<Rightarrow>
          (let tipoDerecho = truncateText v FIELD_LIMITS_tipoDerecho in
           if tipoDerecho = [] then Inl ''El tipo de derecho no puede quedar vacio.''
           else Inr (p\<lparr>ur_tipo_derecho := Some tipoDerecho\<rparr>)))"

definition upd_autoridad_responsable ::
  "ExpedienteUpdate \<Rightarrow> ExpedienteUpdateRow \<Rightarrow> string + ExpedienteUpdateRow" where
  "upd_autoridad_responsable d p =
     (case u_autoridad_responsable d of
        None \<Rightarrow> Inr p
      | Some v \<Rightarrow>
          (let autoridad = truncateText v FIELD_LIMITS_autoridad in
           if autoridad = [] then Inl ''La autoridad responsable no puede quedar vacia.''
           else Inr (p\<lparr>ur_autoridad_responsable := Some autoridad\<rparr>)))"

definition upd_visitador_asignado ::
  "ExpedienteUpdate \<Rightarrow> ExpedienteUpdateRow \<Rightarrow> string + ExpedienteUpdateRow" where
  "upd_visitador_asignado d p =
     (case u_visitador_asignado d of
        None \<Rightarrow> Inr p
      | Some v \<Rightarrow>
          (let visitador = truncateText v FIELD_LIMITS_visitador in
           if visitador = [] then Inl ''El visitador asignado no puede quedar vacio.''
           else Inr (p\<lparr>ur_visitador_asignado := Some visitador\<rparr>)))"

definition upd_estado :: "ExpedienteUpdate \<Rightarrow> ExpedienteUpdateRow \<Rightarrow> string + ExpedienteUpdateRow" where
  "upd_estado d p =
     (case u_estado d of
        None \<Rightarrow> Inr p
      | Some estado \<Rightarrow>
          if estado \<notin> set ESTADOS then Inl ''El estado seleccionado no es valido.''
          else Inr (p\<lparr>ur_estado := Some estado\<rparr>))"

definition upd_notas_seguimiento ::
  "ExpedienteUpdate \<Rightarrow> ExpedienteUpdateRow \<Rightarrow> string + ExpedienteUpdateRow" where
  "upd_notas_seguimiento d p =
     (case u_notas_seguimiento d of
        None \<Rightarrow> Inr p
      | Some v \<Rightarrow> Inr (p\<lparr>ur_notas_seguimiento := Some (take FIELD_LIMITS_notas (trim v))\<rparr>))"

definition upd_fecha_ultimo_movimiento ::
  "platform \<Rightarrow> ExpedienteUpdate \<Rightarrow> ExpedienteUpdateRow \<Rightarrow> string + ExpedienteUpdateRow" where
  "upd_fecha_ultimo_movimiento env d p =
     (case u_fecha_ultimo_movimiento d of
        None \<Rightarrow> Inr p
      | Some v \<Rightarrow>
          (case normalizeDateOnly env v of
             None \<Rightarrow> Inl ''La fecha de ultimo movimiento es invalida.''
           | Some fecha \<Rightarrow>
               if isFutureDate env fecha
               then Inl ''La fecha de ultimo movimiento no puede ser futura.''
               else Inr (p\<lparr>ur_fecha_ultimo_movimiento := Some fecha\<rparr>)))"

definition upd_mes_registro :: "ExpedienteUpdate \<Rightarrow> ExpedienteUpdateRow \<Rightarrow> string + ExpedienteUpdateRow" where
  "upd_mes_registro d p =
     (case u_mes_registro d of
        None \<Rightarrow> Inr p
      | Some v \<Rightarrow>
          (let mesRegistro = truncateText v 60 in
           if mesRegistro = [] then Inl ''El mes de registro no puede quedar vacio.''
           else Inr (p\<lparr>ur_mes_registro := Some mesRegistro\<rparr>)))"

text \<open>
  The cross check of the two dates of the payload, the test \<open>Object.keys(payload).length === 0\<close>,
  and \<open>shouldTouchLastMovement\<close>.
\<close>

definition upd_order_check :: "ExpedienteUpdateRow \<Rightarrow> string + ExpedienteUpdateRow" where
  "upd_order_check p =
     (if truthy (ur_fecha_presentacion p) \<and> truthy (ur_fecha_ultimo_movimiento p)
         \<and> strLess (the (ur_fecha_ultimo_movimiento p)) (the (ur_fecha_presentacion p))
      then Inl ''La fecha de ultimo movimiento no puede ser anterior a la fecha de presentacion.''
      else Inr p)"

definition upd_nonempty_check :: "ExpedienteUpdateRow \<Rightarrow> string + ExpedienteUpdateRow" where
  "upd_nonempty_check p =
     (if p = emptyUpdateRow then Inl ''No hay cambios para guardar.'' else Inr p)"

definition shouldTouchLastMovement :: "ExpedienteUpdateRow \<Rightarrow> bool" where
  "shouldTouchLastMovement p =
     (\<not> truthy (ur_fecha_ultimo_movimiento p)
      \<and> (ur_estado p \<noteq> None
         \<or> ur_tipo_derecho p \<noteq> None
         \<or> ur_autoridad_responsable p \<noteq> None
         \<or> ur_visitador_asignado p \<noteq> None
         \<or> ur_notas_seguimiento p \<noteq> None))"

definition upd_touch :: "platform \<Rightarrow> ExpedienteUpdateRow \<Rightarrow> ExpedienteUpdateRow" where
  "upd_touch env p =
     (if shouldTouchLastMovement p then p\<lparr>ur_fecha_ultimo_movimiento := Some (todayISO env)\<rparr>
      else p)"

definition normalizeUpdatePayload :: "platform \<Rightarrow> ExpedienteUpdate \<Rightarrow> string + ExpedienteUpdateRow" where
  "normalizeUpdatePayload env d =
     andThen (upd_folio d emptyUpdateRow) (\<lambda>p.
     andThen (upd_fecha_presentacion env d p) (\<lambda>p.
     andThen (upd_tipo_derecho d p) (\<lambda>p.
     andThen (upd_autoridad_responsable d p) (\<lambda>p.
     andThen (upd_visitador_asignado d p) (\<lambda>p.
     andThen (upd_estado d p) (\<lambda>p.
     andThen (upd_notas_seguimiento d p) (\<lambda>p.
     andThen (upd_fecha_ultimo_movimiento env d p) (\<lambda>p.
     andThen (upd_mes_registro d p) (\<lambda>p.
     andThen (upd_order_check p) (\<lambda>p.
     andThen (upd_nonempty_check p) (\<lambda>p.
     Inr (upd_touch env p))))))))))))"


section \<open>The case repository (ExpedientesProvider)\<close>

text \<open>
  The backend is outside the program. A call either rejects (the \<open>catch\<close> branch:
  \<open>Rejected\<close>) or resolves to \<open>{ data, error }\<close>. The backend's own state is the
  parameter \<open>'db\<close>; every call may change it.
\<close>

record pgError =
  pg_code :: string
  pg_message :: string

datatype 'a reply = Reply "'a option" "pgError option" | Rejected

record 'db backend =
  insertRow :: "'db \<Rightarrow> ExpedienteInsertRow \<Rightarrow> Expediente reply \<times> 'db"
  updateRow :: "'db \<Rightarrow> string \<Rightarrow> ExpedienteUpdateRow \<Rightarrow> Expediente reply \<times> 'db"
  deleteRow :: "'db \<Rightarrow> string \<Rightarrow> unit reply \<times> 'db"
  selectAll :: "'db \<Rightarrow> Expediente list reply \<times> 'db"

text \<open>The requests sent over the network, in order.\<close>

datatype request =
    InsertReq ExpedienteInsertRow
  | UpdateReq string ExpedienteUpdateRow
  | DeleteReq string
  | SelectReq

text \<open>
  The provider's state: the session, the snapshot \<open>expedientes\<close>, the flags \<open>loading\<close>
  and \<open>error\<close>, the backend's state and the log of requests.
\<close>

record 'db repo =
  st_session :: bool
  st_expedientes :: "Expediente list"
  st_loading :: bool
  st_error :: "string option"
  st_server :: 'db
  st_requests :: "request list"

text \<open>The result \<open>{ error, data }\<close> of a repository operation.\<close>

record 'a outcome =
  r_error :: "string option"
  r_data :: "'a option"

definition failWith :: "string \<Rightarrow> 'a outcome" where
  "failWith msg = \<lparr> r_error = Some msg, r_data = None \<rparr>"

definition isHex :: "char \<Rightarrow> bool" where
  "isHex c = (isDigit c \<or> (65 \<le> codeUnit (asciiUpper c) \<and> codeUnit (asciiUpper c) \<le> 70))"

text \<open>
  \<open>/^[0-9a-f]{8}-[0-9a-f]{4}-[1-5][0-9a-f]{3}-[89ab][0-9a-f]{3}-[0-9a-f]{12}$/i\<close>
\<close>

definition isUuid :: "string \<Rightarrow> bool" where
  "isUuid s =
     (length s = 36
      \<and> list_all isHex (take 8 s)
      \<and> s ! 8 = CHR ''-''
      \<and> list_all isHex (take 4 (drop 9 s))
      \<and> s ! 13 = CHR ''-''
      \<and> s ! 14 \<in> set ''12345''
      \<and> list_all isHex (take 3 (drop 15 s))
      \<and> s ! 18 = CHR ''-''
      \<and> s ! 19 \<in> set ''89abAB''
      \<and> list_all isHex (take 3 (drop 20 s))
      \<and> s ! 23 = CHR ''-''
      \<and> list_all isHex (drop 24 s))"

definition fetchExpedientes :: "'db backend \<Rightarrow> 'db repo \<Rightarrow> 'db repo" where
  "fetchExpedientes B st =
     (if \<not> st_session st
      then st\<lparr>st_expedientes := [], st_error := None, st_loading := False\<rparr>
      else
        (case selectAll B (st_server st) of
           (response, db) \<Rightarrow>
             (let st1 = st\<lparr>st_loading := True, st_error := None, st_server := db,
                            st_requests := st_requests st @ [SelectReq]\<rparr>
              in case response of
                   Rejected \<Rightarrow>
                     st1\<lparr>st_error := Some ''Error de conexion al consultar expedientes.'',
                         st_loading := False\<rparr>
                 | Reply rows (Some fetchError) \<Rightarrow>
                     st1\<lparr>st_error :=
                           Some (if pg_message fetchError = []
                                 then ''No se pudieron cargar los expedientes.''
                                 else pg_message fetchError),
                         st_loading := False\<rparr>
                 | Reply rows None \<Rightarrow>
                     st1\<lparr>st_expedientes := orElse rows [],
                         st_loading := False\<rparr>)))"

text \<open>\<open>item.folio.toUpperCase() === folio.toUpperCase()\<close> for some item of the list.\<close>

definition folioTaken :: "Expediente list \<Rightarrow> string \<Rightarrow> bool" where
  "folioTaken items folio = list_ex (\<lambda>item. toUpperCase (e_folio item) = toUpperCase folio) items"

text \<open>
  \<open>createExpediente\<close>. The function is a closure of one render: its \<open>expedientes\<close> is the
  list that render saw, the first argument here. A caller that awaits several calls in a row
  keeps using the same closure while the state moves on.
\<close>

definition createExpedienteWith ::
  "'db backend \<Rightarrow> platform \<Rightarrow> Expediente list \<Rightarrow> 'db repo \<Rightarrow> ExpedienteInsert
     \<Rightarrow> Expediente outcome \<times> 'db repo" where
  "createExpedienteWith B env expedientes st d =
     (case normalizeCreatePayload env d of
        Inl validationError \<Rightarrow> (failWith validationError, st)
      | Inr payload \<Rightarrow>
          if folioTaken expedientes (ir_folio payload)
          then (failWith (''El folio '' @ ir_folio payload @ '' ya existe.''), st)
          else
            (case insertRow B (st_server st) payload of
               (response, db) \<Rightarrow>
                 (let st1 = st\<lparr>st_server := db,
                                st_requests := st_requests st @ [InsertReq payload]\<rparr>
                  in case response of
                       Rejected \<Rightarrow>
                         (failWith ''No se pudo crear el expediente por un error de red.'', st1)
                     | Reply inserted (Some insertError) \<Rightarrow>
                         (failWith (if pg_code insertError = ''23505''
                                    then ''El folio ya existe en base de datos.''
                                    else pg_message insertError), st1)
                     | Reply inserted None \<Rightarrow>
                         (\<lparr> r_error = None, r_data = inserted \<rparr>, fetchExpedientes B st1))))"

definition createExpediente ::
  "'db backend \<Rightarrow> platform \<Rightarrow> 'db repo \<Rightarrow> ExpedienteInsert \<Rightarrow> Expediente outcome \<times> 'db repo" where
  "createExpediente B env st d = createExpedienteWith B env (st_expedientes st) st d"

definition updateExpediente ::
  "'db backend \<Rightarrow> platform \<Rightarrow> 'db repo \<Rightarrow> string \<Rightarrow> ExpedienteUpdate
     \<Rightarrow> Expediente outcome \<times> 'db repo" where
  "updateExpediente B env st ident d =
     (if \<not> isUuid ident then (failWith ''Identificador de expediente invalido.'', st)
      else case find (\<lambda>item. e_id item = ident) (st_expedientes st) of
        None \<Rightarrow> (failWith ''No se encontro el expediente a actualizar.'', st)
      | Some current \<Rightarrow>
      (case normalizeUpdatePayload env d of
        Inl validationError \<Rightarrow> (failWith validationError, st)
      | Inr payload \<Rightarrow>
          if truthy (ur_folio payload)
             \<and> list_ex (\<lambda>item. e_id item \<noteq> ident
                               \<and> toUpperCase (e_folio item) = toUpperCase (the (ur_folio payload)))
                  (st_expedientes st)
          then (failWith (''El folio '' @ the (ur_folio payload) @ '' ya existe.''), st)
          else
            (let nextFechaPresentacion =
                   orElse (ur_fecha_presentacion payload) (e_fecha_presentacion current);
                 nextFechaMovimiento =
                   orElse (ur_fecha_ultimo_movimiento payload) (e_fecha_ultimo_movimiento current)
             in if strLess nextFechaMovimiento nextFechaPresentacion
                then (failWith
                  ''La fecha de ultimo movimiento no puede ser anterior a la fecha de presentacion.'',
                  st)
                else if isFutureDate env nextFechaMovimiento
                then (failWith ''La fecha de ultimo movimiento no puede ser futura.'', st)
                else
                  (case updateRow B (st_server st) ident payload of
                     (response, db) \<Rightarrow>
                       (let st1 = st\<lparr>st_server := db,
                                      st_requests := st_requests st @ [UpdateReq ident payload]\<rparr>
                        in case response of
                             Rejected \<Rightarrow>
                               (failWith ''No se pudo actualizar el expediente por un error de red.'',
                                st1)
                           | Reply updated (Some updateError) \<Rightarrow>
                               (failWith (if pg_code updateError = ''23505''
                                          then ''El folio ya existe en base de datos.''
                                          else pg_message updateError), st1)
                           | Reply updated None \<Rightarrow>
                               (\<lparr> r_error = None, r_data = updated \<rparr>,
                                fetchExpedientes B st1))))))"

text \<open>\<open>deleteExpediente\<close> returns \<open>{ error }\<close>.\<close>

definition deleteExpediente ::
  "'db backend \<Rightarrow> 'db repo \<Rightarrow> string \<Rightarrow> string option \<times> 'db repo" where
  "deleteExpediente B st ident =
     (if \<not> isUuid ident then (Some ''Identificador de expediente invalido.'', st)
      else
        (case deleteRow B (st_server st) ident of
           (response, db) \<Rightarrow>
             (let st1 = st\<lparr>st_server := db, st_requests := st_requests st @ [DeleteReq ident]\<rparr>
              in case response of
                   Rejected \<Rightarrow>
                     (Some ''No se pudo eliminar el expediente por un error de red.'', st1)
                 | Reply u (Some deleteError) \<Rightarrow> (Some (pg_message deleteError), st1)
                 | Reply u None \<Rightarrow> (None, fetchExpedientes B st1))))"


section \<open>The notification center (NotificationsProvider)\<close>

datatype NotificationType = NSuccess | NWarning | NInfo | NError

text \<open>
  A notification; \<open>timestamp\<close> is the time value of its \<open>Date\<close> in milliseconds (the
  provider only ever stores valid dates).
\<close>

record Notification =
  n_id :: string
  n_type :: NotificationType
  n_title :: string
  n_message :: string
  n_read :: bool
  n_timestamp :: int

text \<open>The argument of \<open>addNotification\<close>: a notification without id, read flag and timestamp.\<close>

record NotificationInput =
  ni_type :: NotificationType
  ni_title :: string
  ni_message :: string

text \<open>The argument of \<open>upsertSystemNotification\<close>: the read flag is optional.\<close>

record SystemInput =
  si_type :: NotificationType
  si_title :: string
  si_message :: string
  si_read :: "bool option"

definition MAX_NOTIFICATIONS :: nat where
  "MAX_NOTIFICATIONS = 80"

text \<open>
  \<open>.sort((a, b) => b.timestamp.getTime() - a.timestamp.getTime())\<close>: newest first.
  \<open>Array.prototype.sort\<close> is stable, and so is the insertion sort \<open>sort_key\<close>: entries
  with equal timestamps keep their order.
\<close>

definition sortNewestFirst :: "Notification list \<Rightarrow> Notification list" where
  "sortNewestFirst xs = sort_key (\<lambda>n. - n_timestamp n) xs"

text \<open>\<open>.sort(...).slice(0, MAX_NOTIFICATIONS)\<close>, the tail of every mutation.\<close>

definition retained :: "Notification list \<Rightarrow> Notification list" where
  "retained xs = take MAX_NOTIFICATIONS (sortNewestFirst xs)"

text \<open>
  \<open>addNotification\<close>; \<open>newId\<close> is the value of \<open>crypto.randomUUID()\<close> and \<open>now\<close> the time
  of \<open>new Date()\<close>.
\<close>

definition newNotification :: "NotificationInput \<Rightarrow> string \<Rightarrow> int \<Rightarrow> Notification" where
  "newNotification n newId now =
     \<lparr> n_id = newId, n_type = ni_type n, n_title = ni_title n, n_message = ni_message n,
       n_read = False, n_timestamp = now \<rparr>"

definition addNotification ::
  "NotificationInput \<Rightarrow> string \<Rightarrow> int \<Rightarrow> Notification list \<Rightarrow> Notification list" where
  "addNotification n newId now prev = retained (newNotification n newId now # prev)"

definition contentChanged :: "Notification \<Rightarrow> SystemInput \<Rightarrow> bool" where
  "contentChanged found n =
     (n_title found \<noteq> si_title n \<or> n_message found \<noteq> si_message n
      \<or> n_type found \<noteq> si_type n \<or> n_read found \<noteq> orElse (si_read n) (n_read found))"

definition refreshed :: "SystemInput \<Rightarrow> int \<Rightarrow> Notification \<Rightarrow> Notification" where
  "refreshed n nextTimestamp item =
     item\<lparr> n_type := si_type n, n_title := si_title n, n_message := si_message n,
           n_read := orElse (si_read n) False, n_timestamp := nextTimestamp \<rparr>"

definition upsertSystemNotification ::
  "string \<Rightarrow> SystemInput \<Rightarrow> int \<Rightarrow> Notification list \<Rightarrow> Notification list" where
  "upsertSystemNotification ident n nextTimestamp prev =
     (case find (\<lambda>item. n_id item = ident) prev of
        None \<Rightarrow>
          retained (\<lparr> n_id = ident, n_type = si_type n, n_title = si_title n,
                      n_message = si_message n, n_read = orElse (si_read n) False,
                      n_timestamp = nextTimestamp \<rparr> # prev)
      | Some found \<Rightarrow>
          if \<not> contentChanged found n then prev
          else retained (map (\<lambda>item. if n_id item \<noteq> ident then item
                                      else refreshed n nextTimestamp item) prev))"

definition removeNotification :: "string \<Rightarrow> Notification list \<Rightarrow> Notification list" where
  "removeNotification ident prev = filter (\<lambda>n. n_id n \<noteq> ident) prev"

definition markRead :: "string \<Rightarrow> Notification list \<Rightarrow> Notification list" where
  "markRead ident prev = map (\<lambda>n. if n_id n = ident then n\<lparr>n_read := True\<rparr> else n) prev"

definition markAllRead :: "Notification list \<Rightarrow> Notification list" where
  "markAllRead prev = map (\<lambda>n. n\<lparr>n_read := True\<rparr>) prev"

text \<open>
  \<open>loadNotifications\<close>, the initial state: the stored array (\<open>None\<close> when nothing is stored,
  the text does not parse or is no array) without the entries that lack an id, a title or
  a message, sorted and cut.
\<close>

definition loadNotifications :: "Notification list option \<Rightarrow> Notification list" where
  "loadNotifications stored =
     (case stored of
        None \<Rightarrow> []
      | Some parsed \<Rightarrow>
          retained (filter (\<lambda>item. n_id item \<noteq> [] \<and> n_title item \<noteq> [] \<and> n_message item \<noteq> [])
                      parsed))"

text \<open>A run of \<open>addNotification\<close> calls, each with its content, fresh id and time.\<close>

definition addMany ::
  "(NotificationInput \<times> string \<times> int) list \<Rightarrow> Notification list \<Rightarrow> Notification list" where
  "addMany events prev = foldl (\<lambda>acc (n, newId, now). addNotification n newId now acc) prev events"

section \<open>Status projections (Dashboard, Reportes, ExpedientesList)\<close>

text \<open>\<open>normalizeEstado\<close> of the dashboard: both spellings of the two accented states get one label.\<close>

definition normalizeEstado :: "string \<Rightarrow> string" where
  "normalizeEstado v =
     (let lower = toLowerCase v in
      if includes_str lower ''integr'' then ''En integracion''
      else if includes_str lower ''concili'' then ''En conciliacion''
      else v)"

text \<open>
  \<open>counts[key] = (counts[key] ?? 0) + 1\<close> on a record of numbers, read back with
  \<open>Object.entries\<close>: a key keeps the place of its first insertion (the states are no
  integer-like keys, which JavaScript would list first).
\<close>

fun bump :: "string \<Rightarrow> (string \<times> nat) list \<Rightarrow> (string \<times> nat) list" where
  "bump k [] = [(k, 1)]"
| "bump k ((k', c) # rest) = (if k' = k then (k', c + 1) # rest else (k', c) # bump k rest)"

definition countBy :: "('a \<Rightarrow> string) \<Rightarrow> 'a list \<Rightarrow> (string \<times> nat) list" where
  "countBy key items = foldl (\<lambda>counts item. bump (key item) counts) [] items"

text \<open>\<open>estadoData\<close> of the dashboard: counts by normalized status, over the whole snapshot.\<close>

definition dashboardEstadoData :: "Expediente list \<Rightarrow> (string \<times> nat) list" where
  "dashboardEstadoData expedientes = countBy (\<lambda>e. normalizeEstado (e_estado e)) expedientes"

text \<open>
  \<open>reportData.byEstado\<close> of the reports: counts by the stored status, over the cases of the
  selected period (\<open>inPeriod\<close> reads the creation date with the engine's calendar).
\<close>

definition reportByEstado :: "(Expediente \<Rightarrow> bool) \<Rightarrow> Expediente list \<Rightarrow> (string \<times> nat) list" where
  "reportByEstado inPeriod expedientes = countBy e_estado (filter inPeriod expedientes)"

text \<open>\<open>matchEstado\<close> of the list view: \<open>filterEstado === 'Todos' || e.estado === filterEstado\<close>.\<close>

definition matchEstado :: "string \<Rightarrow> Expediente \<Rightarrow> bool" where
  "matchEstado filterEstado e = (filterEstado = ''Todos'' \<or> e_estado e = filterEstado)"

section \<open>Backup import (Configuracion)\<close>




fun allOf :: "('e + 'a) list \<Rightarrow> 'e + 'a list" where
  "allOf [] = Inr []"
| "allOf (r # rest) = andThen r (\<lambda>x. andThen (allOf rest) (\<lambda>xs. Inr (x # xs)))"



















section \<open>A reference platform and a reference backend\<close>

text \<open>
  Worked examples need an engine and a server. The reference platform has a fixed offset
  from UTC (\<open>tz\<close> minutes east) and parses the two forms the program itself writes: a date
  \<open>YYYY-MM-DD\<close> is midnight UTC of that day, a date followed by \<open>T00:00:00\<close> is local
  midnight, as ECMAScript prescribes; any other string is an invalid date here (real engines
  accept more forms).
\<close>

definition digitsToInt :: "string \<Rightarrow> int" where
  "digitsToInt s = foldl (\<lambda>acc c. acc * 10 + (codeUnit c - 48)) 0 s"

definition isLeapYear :: "int \<Rightarrow> bool" where
  "isLeapYear y = (y mod 4 = 0 \<and> (y mod 100 \<noteq> 0 \<or> y mod 400 = 0))"

definition daysInMonth :: "int \<Rightarrow> int \<Rightarrow> int" where
  "daysInMonth y m =
     (if m = 2 then (if isLeapYear y then 29 else 28)
      else if m \<in> {4, 6, 9, 11} then 30 else 31)"

definition daysFromCivil :: "int \<Rightarrow> int \<Rightarrow> int \<Rightarrow> int" where
  "daysFromCivil year m d =
     (let y = (if m \<le> 2 then year - 1 else year);
          era = y div 400;
          yoe = y - era * 400;
          mp = (if m > 2 then m - 3 else m + 9);
          doy = (153 * mp + 2) div 5 + d - 1;
          doe = yoe * 365 + yoe div 4 - yoe div 100 + doy
      in era * 146097 + doe - 719468)"

definition parseDay :: "string \<Rightarrow> int option" where
  "parseDay s =
     (let y = digitsToInt (take 4 s);
          m = digitsToInt (take 2 (drop 5 s));
          d = digitsToInt (take 2 (drop 8 s))
      in if length s = 10
            \<and> list_all isDigit (take 4 s) \<and> s ! 4 = CHR ''-''
            \<and> list_all isDigit (take 2 (drop 5 s)) \<and> s ! 7 = CHR ''-''
            \<and> list_all isDigit (take 2 (drop 8 s))
            \<and> 1 \<le> m \<and> m \<le> 12 \<and> 1 \<le> d \<and> d \<le> daysInMonth y m
         then Some (daysFromCivil y m d)
         else None)"

definition isoParse :: "int \<Rightarrow> string \<Rightarrow> int option" where
  "isoParse tz s =
     (if length s = 10 then map_option (\<lambda>day. day * msPerDay) (parseDay s)
      else if drop 10 s = ''T00:00:00''
      then map_option (\<lambda>day. day * msPerDay - tz * 60000) (parseDay (take 10 s))
      else None)"

definition monthNames :: "string list" where
  "monthNames =
     [''enero'', ''febrero'', ''marzo'', ''abril'', ''mayo'', ''junio'', ''julio'', ''agosto'',
      ''septiembre'', ''octubre'', ''noviembre'', ''diciembre'']"

fun monthYearString :: "int \<times> int \<times> int \<Rightarrow> string" where
  "monthYearString (y, m, d) = monthNames ! nat (m - 1) @ '' de '' @ intToString y"

definition referencePlatform :: "int \<Rightarrow> int \<Rightarrow> platform" where
  "referencePlatform tz now =
     \<lparr> dateParse = isoParse tz,
       nowMs = now,
       startOfLocalDay = (\<lambda>t. ((t + tz * 60000) div msPerDay) * msPerDay - tz * 60000),
       monthYearLabel = (\<lambda>t. monthYearString (utcFields (t + tz * 60000))) \<rparr>"

text \<open>
  The reference backend is a table in memory: it assigns identifiers and timestamps, refuses
  a folio it already holds (the unique constraint, code 23505) and lists the newest row first.
\<close>

record memDb =
  db_rows :: "Expediente list"
  db_nextId :: nat
  db_stamp :: string

definition memUuid :: "nat \<Rightarrow> string" where
  "memUuid n = ''00000000-0000-4000-8000-'' @ padStart 12 (CHR ''0'') (natToString n)"

definition memInsert :: "memDb \<Rightarrow> ExpedienteInsertRow \<Rightarrow> Expediente reply \<times> memDb" where
  "memInsert db p =
     (if list_ex (\<lambda>row. e_folio row = ir_folio p) (db_rows db)
      then (Reply None (Some \<lparr> pg_code = ''23505'',
                               pg_message = ''duplicate key value violates unique constraint'' \<rparr>),
            db)
      else
        (let row = \<lparr> e_id = memUuid (db_nextId db),
                     e_folio = ir_folio p,
                     e_fecha_presentacion = ir_fecha_presentacion p,
                     e_tipo_derecho = ir_tipo_derecho p,
                     e_autoridad_responsable = ir_autoridad_responsable p,
                     e_visitador_asignado = ir_visitador_asignado p,
                     e_estado = ir_estado p,
                     e_fecha_ultimo_movimiento = ir_fecha_ultimo_movimiento p,
                     e_notas_seguimiento = ir_notas_seguimiento p,
                     e_mes_registro = ir_mes_registro p,
                     e_created_at = db_stamp db,
                     e_updated_at = db_stamp db \<rparr>
         in (Reply (Some row) None,
             db\<lparr>db_rows := row # db_rows db, db_nextId := Suc (db_nextId db)\<rparr>)))"

definition applyPatch :: "string \<Rightarrow> ExpedienteUpdateRow \<Rightarrow> Expediente \<Rightarrow> Expediente" where
  "applyPatch stamp p row =
     row\<lparr> e_folio := orElse (ur_folio p) (e_folio row),
          e_fecha_presentacion := orElse (ur_fecha_presentacion p) (e_fecha_presentacion row),
          e_tipo_derecho := orElse (ur_tipo_derecho p) (e_tipo_derecho row),
          e_autoridad_responsable :=
            orElse (ur_autoridad_responsable p) (e_autoridad_responsable row),
          e_visitador_asignado := orElse (ur_visitador_asignado p) (e_visitador_asignado row),
          e_estado := orElse (ur_estado p) (e_estado row),
          e_fecha_ultimo_movimiento :=
            orElse (ur_fecha_ultimo_movimiento p) (e_fecha_ultimo_movimiento row),
          e_notas_seguimiento := orElse (ur_notas_seguimiento p) (e_notas_seguimiento row),
          e_mes_registro := orElse (ur_mes_registro p) (e_mes_registro row),
          e_updated_at := stamp \<rparr>"

definition memUpdate :: "memDb \<Rightarrow> string \<Rightarrow> ExpedienteUpdateRow \<Rightarrow> Expediente reply \<times> memDb" where
  "memUpdate db ident p =
     (case find (\<lambda>row. e_id row = ident) (db_rows db) of
        None \<Rightarrow>
          (Reply None (Some \<lparr> pg_code = ''PGRST116'', pg_message = ''no rows returned'' \<rparr>), db)
      | Some row \<Rightarrow>
          (Reply (Some (applyPatch (db_stamp db) p row)) None,
           db\<lparr>db_rows := map (\<lambda>r. if e_id r = ident then applyPatch (db_stamp db) p r else r)
                             (db_rows db)\<rparr>))"

definition memDelete :: "memDb \<Rightarrow> string \<Rightarrow> unit reply \<times> memDb" where
  "memDelete db ident =
     (Reply None None, db\<lparr>db_rows := filter (\<lambda>r. e_id r \<noteq> ident) (db_rows db)\<rparr>)"

definition memSelect :: "memDb \<Rightarrow> Expediente list reply \<times> memDb" where
  "memSelect db = (Reply (Some (db_rows db)) None, db)"

definition memBackend :: "memDb backend" where
  "memBackend =
     \<lparr> insertRow = memInsert, updateRow = memUpdate, deleteRow = memDelete,
       selectAll = memSelect \<rparr>"

section \<open>Vocabulary of the claims\<close>

text \<open>
  The dates of a create input break a rule of the validator: the filing date does not parse
  or is in the future, or the last-movement date (the filing date when the input has none)
  does not parse, is in the future, or sorts before the filing date.
\<close>

definition createDatesViolated :: "platform \<Rightarrow> ExpedienteInsert \<Rightarrow> bool" where
  "createDatesViolated env d =
     (case normalizeDateOnly env (i_fecha_presentacion d) of
        None \<Rightarrow> True
      | Some f \<Rightarrow>
          isFutureDate env f
          \<or> (case normalizeDateOnly env (orElse (i_fecha_ultimo_movimiento d) f) of
                None \<Rightarrow> True
              | Some m \<Rightarrow> isFutureDate env m \<or> strLess m f))"

text \<open>
  The day \<open>a\<close>, as the engine reads the string, is before the day \<open>b\<close>: both parse and
  the instant of the first is the smaller.
\<close>

definition earlierDay :: "platform \<Rightarrow> string \<Rightarrow> string \<Rightarrow> bool" where
  "earlierDay env a b =
     (case dateParse env a of
        None \<Rightarrow> False
      | Some x \<Rightarrow> (case dateParse env b of None \<Rightarrow> False | Some y \<Rightarrow> x < y))"

text \<open>Two stored dates in order: the movement not before the filing, neither in the future.\<close>

definition datesInOrder :: "platform \<Rightarrow> string \<Rightarrow> string \<Rightarrow> bool" where
  "datesInOrder env filing movement =
     (\<not> strLess movement filing \<and> \<not> isFutureDate env filing \<and> \<not> isFutureDate env movement)"

text \<open>A patch with no field set.\<close>

definition emptyUpdate :: ExpedienteUpdate where
  "emptyUpdate =
     \<lparr> u_folio = None, u_fecha_presentacion = None, u_tipo_derecho = None,
       u_autoridad_responsable = None, u_visitador_asignado = None, u_estado = None,
       u_fecha_ultimo_movimiento = None, u_notas_seguimiento = None, u_mes_registro = None \<rparr>"

text \<open>
  A notification list is newest first when its timestamps never increase, and within the
  bound when it also holds at most \<open>MAX_NOTIFICATIONS\<close> entries.
\<close>

definition newestFirst :: "Notification list \<Rightarrow> bool" where
  "newestFirst xs = sorted (map (\<lambda>n. - n_timestamp n) xs)"

definition withinBound :: "Notification list \<Rightarrow> bool" where
  "withinBound xs = (length xs \<le> MAX_NOTIFICATIONS \<and> newestFirst xs)"

text \<open>The notification one \<open>addNotification\<close> call of a run creates.\<close>

definition eventNotification :: "NotificationInput \<times> string \<times> int \<Rightarrow> Notification" where
  "eventNotification e = (case e of (n, newId, now) \<Rightarrow> newNotification n newId now)"





section \<open>Worked examples\<close>

text \<open>
  The engine of the examples: eight hours west of UTC, at 20:00 UTC of 10 March 2026
  (noon, local time).
\<close>

definition examplePlatform :: platform where
  "examplePlatform = referencePlatform (- 480) (20522 * msPerDay + 72000000)"

definition exampleInsert :: ExpedienteInsert where
  "exampleInsert =
     \<lparr> i_folio = ''cedhbc/2026 001'', i_fecha_presentacion = ''2026-01-15'',
       i_tipo_derecho = ''Salud'', i_autoridad_responsable = ''IMSS'',
       i_visitador_asignado = ''Visitador I'', i_estado = None,
       i_fecha_ultimo_movimiento = None, i_notas_seguimiento = None, i_mes_registro = None \<rparr>"

definition exampleRow :: ExpedienteInsertRow where
  "exampleRow =
     \<lparr> ir_folio = ''CEDHBC-2026-001'', ir_fecha_presentacion = ''2026-01-15'',
       ir_tipo_derecho = ''Salud'', ir_autoridad_responsable = ''IMSS'',
       ir_visitador_asignado = ''Visitador I'', ir_estado = ''Admitida'',
       ir_fecha_ultimo_movimiento = ''2026-01-15'', ir_notas_seguimiento = [],
       ir_mes_registro = ''enero de 2026'' \<rparr>"

text \<open>
  The repository before and after the example case is stored, patches that resolve the case
  (without and with a date of their own), an input filed tomorrow, inputs that repeat the
  stored folio in lower case, an identifier no row has, and a row whose identifier is a
  version 7 UUID.
\<close>

definition exampleExpediente :: Expediente where
  "exampleExpediente =
     \<lparr> e_id = ''00000000-0000-4000-8000-000000000001'', e_folio = ''CEDHBC-2026-001'',
       e_fecha_presentacion = ''2026-01-15'', e_tipo_derecho = ''Salud'',
       e_autoridad_responsable = ''IMSS'', e_visitador_asignado = ''Visitador I'',
       e_estado = ''Admitida'', e_fecha_ultimo_movimiento = ''2026-01-15'',
       e_notas_seguimiento = [], e_mes_registro = ''enero de 2026'',
       e_created_at = ''2026-03-10T20:00:00Z'', e_updated_at = ''2026-03-10T20:00:00Z'' \<rparr>"

definition emptyState :: "memDb repo" where
  "emptyState =
     \<lparr> st_session = True, st_expedientes = [], st_loading = False, st_error = None,
       st_server = \<lparr> db_rows = [], db_nextId = 1, db_stamp = ''2026-03-10T20:00:00Z'' \<rparr>,
       st_requests = [] \<rparr>"

definition exampleState :: "memDb repo" where
  "exampleState =
     \<lparr> st_session = True, st_expedientes = [exampleExpediente], st_loading = False,
       st_error = None,
       st_server = \<lparr> db_rows = [exampleExpediente], db_nextId = 2,
                     db_stamp = ''2026-03-10T20:00:00Z'' \<rparr>,
       st_requests = [] \<rparr>"

definition resolvePatch :: ExpedienteUpdate where
  "resolvePatch = emptyUpdate\<lparr>u_estado := Some ''Resuelta''\<rparr>"

definition resolveRow :: ExpedienteUpdateRow where
  "resolveRow = emptyUpdateRow\<lparr>ur_estado := Some ''Resuelta'',
                               ur_fecha_ultimo_movimiento := Some ''2026-03-10''\<rparr>"

definition futureInsert :: ExpedienteInsert where
  "futureInsert = exampleInsert\<lparr>i_fecha_presentacion := ''2026-03-11''\<rparr>"

text \<open>
  An input and a patch whose last movement is dated 1 January of the year 99, with the row
  and the payload the validators make of them, and the engine of the examples six hours
  later: 02:00 UTC of 11 March 2026, which is 18:00 of 10 March, local time.
\<close>

definition ancientInsert :: ExpedienteInsert where
  "ancientInsert = exampleInsert\<lparr>i_fecha_ultimo_movimiento := Some ''0099-01-01''\<rparr>"

definition ancientRow :: ExpedienteInsertRow where
  "ancientRow = exampleRow\<lparr>ir_fecha_ultimo_movimiento := ''99-01-01''\<rparr>"

definition ancientPatch :: ExpedienteUpdate where
  "ancientPatch = emptyUpdate\<lparr>u_fecha_ultimo_movimiento := Some ''0099-01-01''\<rparr>"

definition ancientUpdateRow :: ExpedienteUpdateRow where
  "ancientUpdateRow = emptyUpdateRow\<lparr>ur_fecha_ultimo_movimiento := Some ''99-01-01''\<rparr>"

definition eveningPlatform :: platform where
  "eveningPlatform = referencePlatform (- 480) (20523 * msPerDay + 7200000)"

definition datedPatch :: ExpedienteUpdate where
  "datedPatch = emptyUpdate\<lparr>u_estado := Some ''Resuelta'',
                            u_fecha_ultimo_movimiento := Some ''2026-02-01''\<rparr>"

definition datedRow :: ExpedienteUpdateRow where
  "datedRow = emptyUpdateRow\<lparr>ur_estado := Some ''Resuelta'',
                             ur_fecha_ultimo_movimiento := Some ''2026-02-01''\<rparr>"

definition duplicateInsert :: ExpedienteInsert where
  "duplicateInsert = exampleInsert\<lparr>i_folio := ''cedhbc-2026-001''\<rparr>"

definition duplicateFutureInsert :: ExpedienteInsert where
  "duplicateFutureInsert = futureInsert\<lparr>i_folio := ''cedhbc-2026-001''\<rparr>"

definition absentId :: string where
  "absentId = ''00000000-0000-4000-8000-000000000002''"

definition version7Id :: string where
  "version7Id = ''018f3c2a-7b1e-7c4d-9a6b-000000000001''"

definition version7State :: "memDb repo" where
  "version7State =
     \<lparr> st_session = True, st_expedientes = [exampleExpediente\<lparr>e_id := version7Id\<rparr>],
       st_loading = False, st_error = None,
       st_server = \<lparr> db_rows = [exampleExpediente\<lparr>e_id := version7Id\<rparr>], db_nextId = 2,
                     db_stamp = ''2026-03-10T20:00:00Z'' \<rparr>,
       st_requests = [] \<rparr>"

text \<open>
  Two system notifications as the layout's effect writes them, a changed content for the
  second, the content of the first, and a list that is full: eighty notifications stamped
  1 to 80, newest first.
\<close>

definition staleEntry :: "int \<Rightarrow> Notification" where
  "staleEntry t =
     \<lparr> n_id = ''system-stale-cases'', n_type = NWarning, n_title = ''Casos sin movimiento'',
       n_message = ''3 casos'', n_read = False, n_timestamp = t \<rparr>"

definition plannerEntry :: Notification where
  "plannerEntry =
     \<lparr> n_id = ''system-daily-planner'', n_type = NInfo, n_title = ''Agenda diaria'',
       n_message = ''1 vencidas'', n_read = False, n_timestamp = 100 \<rparr>"

definition plannerChanged :: SystemInput where
  "plannerChanged =
     \<lparr> si_type = NInfo, si_title = ''Agenda diaria'', si_message = ''2 vencidas'',
       si_read = None \<rparr>"

definition staleInput :: SystemInput where
  "staleInput =
     \<lparr> si_type = NWarning, si_title = ''Casos sin movimiento'', si_message = ''3 casos'',
       si_read = None \<rparr>"

definition sampleInput :: NotificationInput where
  "sampleInput = \<lparr> ni_type = NInfo, ni_title = ''t'', ni_message = ''m'' \<rparr>"

definition sampleEvents :: "nat \<Rightarrow> (NotificationInput \<times> string \<times> int) list" where
  "sampleEvents k = map (\<lambda>i. (sampleInput, natToString i, int i)) [1..<Suc k]"

definition fullList :: "Notification list" where
  "fullList = rev (map eventNotification (sampleEvents 80))"

text \<open>
  Two cases in the same state, one stored with the accent and one without.
\<close>

definition accentedCase :: Expediente where
  "accentedCase = exampleExpediente\<lparr>e_estado := EN_INTEGRACION\<rparr>"

definition plainCase :: Expediente where
  "plainCase = exampleExpediente\<lparr>e_id := absentId, e_folio := ''CEDHBC-2026-002'',
                                 e_estado := ''En integracion''\<rparr>"









section \<open>Properties\<close>

subsection \<open>Folio normalization\<close>

lemma replaceRuns_id: "\<forall>c\<in>set s. \<not> p c \<Longrightarrow> replaceRuns p r s = s"
  by (induction s) auto

lemma replaceRuns_set:
  "c \<in> set (replaceRuns p r s) \<Longrightarrow> c \<in> set r \<or> (c \<in> set s \<and> \<not> p c)"
proof (induction p r s rule: replaceRuns.induct)
  case (1 p r)
  then show ?case by simp
next
  case (2 p r d ds)
  show ?case
  proof (cases "p d")
    case True
    with 2 have "c \<in> set r \<or> c \<in> set (replaceRuns p r (dropWhile p ds))" by auto
    then show ?thesis
      using 2(1)[OF True] by (auto dest: set_dropWhileD)
  next
    case False
    with 2 show ?thesis by auto
  qed
qed

lemma dropWhile_none: "\<forall>c\<in>set xs. \<not> P c \<Longrightarrow> dropWhile P xs = xs"
  by (cases xs) auto

lemma trim_id: "\<forall>c\<in>set s. \<not> isSpace c \<Longrightarrow> trim s = s"
  by (simp add: trim_def dropWhile_none)

lemma upperChar_fix: "d \<in> set (upperChar c) \<Longrightarrow> upperChar d = [d]"
  by (auto simp: upperChar_def codeUnit_def Let_def split: if_splits)

lemma toUpperCase_id: "\<forall>c\<in>set s. upperChar c = [c] \<Longrightarrow> toUpperCase s = s"
  by (induction s) (auto simp: toUpperCase_def)

lemma toUpperCase_fix: "c \<in> set (toUpperCase s) \<Longrightarrow> upperChar c = [c]"
  by (auto simp: toUpperCase_def dest: upperChar_fix)

lemma normalizeFolio_chars:
  assumes "c \<in> set (normalizeFolio f)"
  shows "\<not> isSpace c \<and> c \<noteq> CHR ''/'' \<and> upperChar c = [c]"
proof -
  from assms have "c \<in> set ''-'' \<or>
      (c \<in> set (toUpperCase (normalizeWhitespace f)) \<and> \<not> (isSpace c \<or> c = CHR ''/''))"
    unfolding normalizeFolio_def by (rule replaceRuns_set)
  then show ?thesis
  proof
    assume "c \<in> set ''-''"
    then show ?thesis by (simp add: isSpace_def codeUnit_def upperChar_def)
  next
    assume "c \<in> set (toUpperCase (normalizeWhitespace f)) \<and> \<not> (isSpace c \<or> c = CHR ''/'')"
    then show ?thesis by (auto dest: toUpperCase_fix)
  qed
qed

lemma normalizeWhitespace_id: "\<forall>c\<in>set s. \<not> isSpace c \<Longrightarrow> normalizeWhitespace s = s"
  by (simp add: normalizeWhitespace_def replaceRuns_id trim_id)

lemma normalizeFolio_fixed:
  assumes "\<forall>c\<in>set s. \<not> isSpace c \<and> c \<noteq> CHR ''/'' \<and> upperChar c = [c]"
  shows "normalizeFolio s = s"
proof -
  have "normalizeWhitespace s = s" using assms by (simp add: normalizeWhitespace_id)
  moreover have "toUpperCase s = s" using assms by (simp add: toUpperCase_id)
  moreover have "replaceRuns (\<lambda>c. isSpace c \<or> c = CHR ''/'') ''-'' s = s"
    using assms by (simp add: replaceRuns_id)
  ultimately show ?thesis by (simp add: normalizeFolio_def)
qed

lemma normalizeFolio_idem: "normalizeFolio (normalizeFolio f) = normalizeFolio f"
  by (rule normalizeFolio_fixed) (simp add: normalizeFolio_chars)

lemma folioRegexTest_length: "folioRegexTest s \<Longrightarrow> length s \<le> 18"
  by (auto simp: folioRegexTest_def Let_def)

lemma isValidFolio_untruncated:
  assumes "isValidFolio (take FIELD_LIMITS_folio (normalizeFolio f))"
  shows "take FIELD_LIMITS_folio (normalizeFolio f) = normalizeFolio f
         \<and> isValidFolio (normalizeFolio f)"
proof -
  let ?r = "normalizeFolio f"
  have ns: "\<forall>c\<in>set (take FIELD_LIMITS_folio ?r). \<not> isSpace c"
    using normalizeFolio_chars by (metis in_set_takeD)
  then have "normalizeWhitespace (take FIELD_LIMITS_folio ?r) = take FIELD_LIMITS_folio ?r"
    by (rule normalizeWhitespace_id)
  with assms have "folioRegexTest (take FIELD_LIMITS_folio ?r)" by (simp add: isValidFolio_def)
  then have "length (take FIELD_LIMITS_folio ?r) \<le> 18" by (rule folioRegexTest_length)
  then have "length ?r \<le> 18" by (simp add: FIELD_LIMITS_folio_def min_def split: if_splits)
  then have eq: "take FIELD_LIMITS_folio ?r = ?r" by (simp add: FIELD_LIMITS_folio_def)
  with assms show ?thesis by simp
qed

subsection \<open>What an accepted create payload holds\<close>

lemma normalizeCreatePayload_InrD:
  assumes "normalizeCreatePayload env d = Inr p"
  shows "\<exists>f m. normalizeDateOnly env (i_fecha_presentacion d) = Some f
           \<and> normalizeDateOnly env (orElse (i_fecha_ultimo_movimiento d) f) = Some m
           \<and> \<not> isFutureDate env f \<and> \<not> isFutureDate env m \<and> \<not> strLess m f
           \<and> ir_fecha_presentacion p = f \<and> ir_fecha_ultimo_movimiento p = m
           \<and> ir_folio p = take FIELD_LIMITS_folio (normalizeFolio (i_folio d))
           \<and> isValidFolio (ir_folio p)"
  using assms
  by (auto simp: normalizeCreatePayload_def Let_def split: if_splits option.splits)

subsection \<open>The worked example, evaluated\<close>

lemma ex_folio: "normalizeFolio ''cedhbc/2026 001'' = ''CEDHBC-2026-001''"
  by code_simp

lemma ex_valid: "isValidFolio ''CEDHBC-2026-001''"
  by code_simp

lemma ex_date: "normalizeDateOnly examplePlatform ''2026-01-15'' = Some ''2026-01-15''"
  by code_simp

lemma ex_not_future: "\<not> isFutureDate examplePlatform ''2026-01-15''"
  by code_simp

lemma ex_mes: "getMesRegistro examplePlatform ''2026-01-15'' = ''enero de 2026''"
  by code_simp

lemma ex_truncate:
  "truncateText ''Salud'' FIELD_LIMITS_tipoDerecho = ''Salud''"
  "truncateText ''IMSS'' FIELD_LIMITS_autoridad = ''IMSS''"
  "truncateText ''Visitador I'' FIELD_LIMITS_visitador = ''Visitador I''"
  "truncateText ''enero de 2026'' 60 = ''enero de 2026''"
  by code_simp+

lemma ex_misc:
  "take FIELD_LIMITS_folio ''CEDHBC-2026-001'' = ''CEDHBC-2026-001''"
  "take FIELD_LIMITS_notas (trim []) = []"
  "\<not> strLess ''2026-01-15'' ''2026-01-15''"
  "''Admitida'' \<in> set ESTADOS"
  by code_simp+

lemma example_create_payload:
  "normalizeCreatePayload examplePlatform exampleInsert = Inr exampleRow"
  unfolding normalizeCreatePayload_def exampleInsert_def exampleRow_def
  by (simp add: Let_def orElse_def ex_folio ex_valid ex_date ex_not_future ex_mes ex_truncate
        ex_misc del: strLess.simps)

subsection \<open>Claim C6\<close>

text \<open>
  C6. \<open>normalizeFolio\<close> is idempotent: normalizing a normalized folio changes nothing. And
  whenever the create validator accepts an input, the normalized folio of that input passes
  \<open>isValidFolio\<close> (it is the folio of the payload: the cut at 32 characters removes nothing
  from a folio of the accepted format).
\<close>

theorem normalizeFolio_idempotent_and_valid:
  "normalizeFolio (normalizeFolio f) = normalizeFolio f
   \<and> (normalizeCreatePayload env d = Inr p \<longrightarrow>
        isValidFolio (normalizeFolio (i_folio d)) \<and> ir_folio p = normalizeFolio (i_folio d))"
proof (intro conjI impI)
  show "normalizeFolio (normalizeFolio f) = normalizeFolio f" by (rule normalizeFolio_idem)
next
  assume a: "normalizeCreatePayload env d = Inr p"
  from normalizeCreatePayload_InrD[OF a]
  have 1: "ir_folio p = take FIELD_LIMITS_folio (normalizeFolio (i_folio d))"
    and 2: "isValidFolio (ir_folio p)" by auto
  from 2 have 3: "isValidFolio (take FIELD_LIMITS_folio (normalizeFolio (i_folio d)))"
    by (simp add: 1)
  from isValidFolio_untruncated[OF 3] show "isValidFolio (normalizeFolio (i_folio d))" by simp
  from isValidFolio_untruncated[OF 3] 1 show "ir_folio p = normalizeFolio (i_folio d)" by simp
qed

theorem normalizeFolio_idempotent_and_valid_witness:
  "normalizeCreatePayload examplePlatform exampleInsert = Inr exampleRow
   \<and> normalizeFolio (normalizeFolio ''cedhbc/2026 001'') = ''CEDHBC-2026-001''
   \<and> isValidFolio (normalizeFolio (i_folio exampleInsert))
   \<and> ir_folio exampleRow = normalizeFolio (i_folio exampleInsert)"
  using normalizeFolio_idempotent_and_valid
          [of "''cedhbc/2026 001''" examplePlatform exampleInsert exampleRow]
        example_create_payload ex_folio
  by simp

subsection \<open>The update validator, step by step\<close>

lemma andThen_Inr: "andThen r f = Inr q \<longleftrightarrow> (\<exists>p. r = Inr p \<and> f p = Inr q)"
  by (cases r) (auto simp: andThen_def)

lemma upd_folio_Inr:
  "upd_folio d p = Inr q \<Longrightarrow>
     q = p\<lparr>ur_folio := (case u_folio d of None \<Rightarrow> ur_folio p
                          | Some v \<Rightarrow> Some (take FIELD_LIMITS_folio (normalizeFolio v)))\<rparr>
     \<and> (\<forall>v. u_folio d = Some v \<longrightarrow> take FIELD_LIMITS_folio (normalizeFolio v) \<noteq> []
            \<and> isValidFolio (take FIELD_LIMITS_folio (normalizeFolio v)))"
  by (auto simp: upd_folio_def Let_def split: option.splits if_splits)

lemma upd_fecha_presentacion_Inr:
  "upd_fecha_presentacion env d p = Inr q \<Longrightarrow>
     (case u_fecha_presentacion d of
        None \<Rightarrow> q = p
      | Some v \<Rightarrow> (\<exists>f. normalizeDateOnly env v = Some f \<and> \<not> isFutureDate env f
                    \<and> q = p\<lparr>ur_fecha_presentacion := Some f,
                            ur_mes_registro := (if truthy (ur_mes_registro p) then ur_mes_registro p
                                                else Some (getMesRegistro env f))\<rparr>))"
  by (auto simp: upd_fecha_presentacion_def Let_def split: option.splits if_splits)

lemma upd_tipo_derecho_Inr:
  "upd_tipo_derecho d p = Inr q \<Longrightarrow>
     q = p\<lparr>ur_tipo_derecho := (case u_tipo_derecho d of None \<Rightarrow> ur_tipo_derecho p
               | Some v \<Rightarrow> Some (truncateText v FIELD_LIMITS_tipoDerecho))\<rparr>"
  by (auto simp: upd_tipo_derecho_def Let_def split: option.splits if_splits)

lemma upd_autoridad_responsable_Inr:
  "upd_autoridad_responsable d p = Inr q \<Longrightarrow>
     q = p\<lparr>ur_autoridad_responsable := (case u_autoridad_responsable d of
                 None \<Rightarrow> ur_autoridad_responsable p
               | Some v \<Rightarrow> Some (truncateText v FIELD_LIMITS_autoridad))\<rparr>"
  by (auto simp: upd_autoridad_responsable_def Let_def split: option.splits if_splits)

lemma upd_visitador_asignado_Inr:
  "upd_visitador_asignado d p = Inr q \<Longrightarrow>
     q = p\<lparr>ur_visitador_asignado := (case u_visitador_asignado d of
                 None \<Rightarrow> ur_visitador_asignado p
               | Some v \<Rightarrow> Some (truncateText v FIELD_LIMITS_visitador))\<rparr>"
  by (auto simp: upd_visitador_asignado_def Let_def split: option.splits if_splits)

lemma upd_estado_Inr:
  "upd_estado d p = Inr q \<Longrightarrow>
     q = p\<lparr>ur_estado := (case u_estado d of None \<Rightarrow> ur_estado p | Some e \<Rightarrow> Some e)\<rparr>"
  by (auto simp: upd_estado_def split: option.splits if_splits)

lemma upd_notas_seguimiento_Inr:
  "upd_notas_seguimiento d p = Inr q \<Longrightarrow>
     q = p\<lparr>ur_notas_seguimiento := (case u_notas_seguimiento d of
                 None \<Rightarrow> ur_notas_seguimiento p
               | Some v \<Rightarrow> Some (take FIELD_LIMITS_notas (trim v)))\<rparr>"
  by (auto simp: upd_notas_seguimiento_def split: option.splits)

lemma upd_fecha_ultimo_movimiento_Inr:
  "upd_fecha_ultimo_movimiento env d p = Inr q \<Longrightarrow>
     (case u_fecha_ultimo_movimiento d of
        None \<Rightarrow> q = p
      | Some v \<Rightarrow> (\<exists>f. normalizeDateOnly env v = Some f \<and> \<not> isFutureDate env f
                    \<and> q = p\<lparr>ur_fecha_ultimo_movimiento := Some f\<rparr>))"
  by (auto simp: upd_fecha_ultimo_movimiento_def split: option.splits if_splits)

lemma upd_mes_registro_Inr:
  "upd_mes_registro d p = Inr q \<Longrightarrow>
     q = p\<lparr>ur_mes_registro := (case u_mes_registro d of None \<Rightarrow> ur_mes_registro p
               | Some v \<Rightarrow> Some (truncateText v 60))\<rparr>"
  by (auto simp: upd_mes_registro_def Let_def split: option.splits if_splits)

lemma upd_order_check_Inr:
  "upd_order_check p = Inr q \<Longrightarrow>
     q = p \<and> \<not> (truthy (ur_fecha_presentacion p) \<and> truthy (ur_fecha_ultimo_movimiento p)
                \<and> strLess (the (ur_fecha_ultimo_movimiento p)) (the (ur_fecha_presentacion p)))"
  by (auto simp: upd_order_check_def split: if_splits)

lemma upd_nonempty_check_Inr: "upd_nonempty_check p = Inr q \<Longrightarrow> q = p \<and> p \<noteq> emptyUpdateRow"
  by (auto simp: upd_nonempty_check_def split: if_splits)

text \<open>The payload before the touch, field by field.\<close>

lemma normalizeUpdatePayload_InrD:
  assumes "normalizeUpdatePayload env d = Inr p"
  shows "\<exists>q. p = upd_touch env q \<and> q \<noteq> emptyUpdateRow
     \<and> ur_estado q = u_estado d
     \<and> (ur_tipo_derecho q = None \<longleftrightarrow> u_tipo_derecho d = None)
     \<and> (ur_autoridad_responsable q = None \<longleftrightarrow> u_autoridad_responsable d = None)
     \<and> (ur_visitador_asignado q = None \<longleftrightarrow> u_visitador_asignado d = None)
     \<and> (ur_notas_seguimiento q = None \<longleftrightarrow> u_notas_seguimiento d = None)
     \<and> (case u_fecha_ultimo_movimiento d of
           None \<Rightarrow> ur_fecha_ultimo_movimiento q = None
         | Some v \<Rightarrow> ur_fecha_ultimo_movimiento q = normalizeDateOnly env v
                     \<and> normalizeDateOnly env v \<noteq> None
                     \<and> \<not> isFutureDate env (the (normalizeDateOnly env v)))
     \<and> (case u_fecha_presentacion d of
           None \<Rightarrow> ur_fecha_presentacion q = None
         | Some v \<Rightarrow> ur_fecha_presentacion q = normalizeDateOnly env v
                     \<and> normalizeDateOnly env v \<noteq> None
                     \<and> \<not> isFutureDate env (the (normalizeDateOnly env v)))
     \<and> \<not> (truthy (ur_fecha_presentacion q) \<and> truthy (ur_fecha_ultimo_movimiento q)
          \<and> strLess (the (ur_fecha_ultimo_movimiento q)) (the (ur_fecha_presentacion q)))"
proof -
  from assms obtain p1 p2 p3 p4 p5 p6 p7 p8 p9 p10 p11 where
    s1: "upd_folio d emptyUpdateRow = Inr p1" and
    s2: "upd_fecha_presentacion env d p1 = Inr p2" and
    s3: "upd_tipo_derecho d p2 = Inr p3" and
    s4: "upd_autoridad_responsable d p3 = Inr p4" and
    s5: "upd_visitador_asignado d p4 = Inr p5" and
    s6: "upd_estado d p5 = Inr p6" and
    s7: "upd_notas_seguimiento d p6 = Inr p7" and
    s8: "upd_fecha_ultimo_movimiento env d p7 = Inr p8" and
    s9: "upd_mes_registro d p8 = Inr p9" and
    s10: "upd_order_check p9 = Inr p10" and
    s11: "upd_nonempty_check p10 = Inr p11" and
    fin: "p = upd_touch env p11"
    unfolding normalizeUpdatePayload_def andThen_Inr by auto
  note f1 = upd_folio_Inr[OF s1]
  note f2 = upd_fecha_presentacion_Inr[OF s2]
  note f3 = upd_tipo_derecho_Inr[OF s3]
  note f4 = upd_autoridad_responsable_Inr[OF s4]
  note f5 = upd_visitador_asignado_Inr[OF s5]
  note f6 = upd_estado_Inr[OF s6]
  note f7 = upd_notas_seguimiento_Inr[OF s7]
  note f8 = upd_fecha_ultimo_movimiento_Inr[OF s8]
  note f9 = upd_mes_registro_Inr[OF s9]
  note f10 = upd_order_check_Inr[OF s10]
  note f11 = upd_nonempty_check_Inr[OF s11]
  have e: "p11 = p9" using f10 f11 by simp
  have ne: "p11 \<noteq> emptyUpdateRow" using f10 f11 by simp
  have ord: "\<not> (truthy (ur_fecha_presentacion p11) \<and> truthy (ur_fecha_ultimo_movimiento p11)
          \<and> strLess (the (ur_fecha_ultimo_movimiento p11)) (the (ur_fecha_presentacion p11)))"
    using f10 e by simp
  have p1n: "ur_fecha_presentacion p1 = None" "ur_tipo_derecho p1 = None"
    "ur_autoridad_responsable p1 = None" "ur_visitador_asignado p1 = None"
    "ur_estado p1 = None" "ur_notas_seguimiento p1 = None" "ur_fecha_ultimo_movimiento p1 = None"
    using f1 by (simp_all add: emptyUpdateRow_def)
  have p2n: "ur_tipo_derecho p2 = None"
    "ur_autoridad_responsable p2 = None" "ur_visitador_asignado p2 = None"
    "ur_estado p2 = None" "ur_notas_seguimiento p2 = None" "ur_fecha_ultimo_movimiento p2 = None"
    and p2f: "case u_fecha_presentacion d of
           None \<Rightarrow> ur_fecha_presentacion p2 = None
         | Some v \<Rightarrow> ur_fecha_presentacion p2 = normalizeDateOnly env v
                     \<and> normalizeDateOnly env v \<noteq> None
                     \<and> \<not> isFutureDate env (the (normalizeDateOnly env v))"
    using f2 p1n by (auto split: option.splits)
  have p7: "ur_estado p7 = u_estado d"
     "(ur_tipo_derecho p7 = None \<longleftrightarrow> u_tipo_derecho d = None)"
     "(ur_autoridad_responsable p7 = None \<longleftrightarrow> u_autoridad_responsable d = None)"
     "(ur_visitador_asignado p7 = None \<longleftrightarrow> u_visitador_asignado d = None)"
     "(ur_notas_seguimiento p7 = None \<longleftrightarrow> u_notas_seguimiento d = None)"
     "ur_fecha_ultimo_movimiento p7 = None"
     "ur_fecha_presentacion p7 = ur_fecha_presentacion p2"
    using f3 f4 f5 f6 f7 p2n by (auto split: option.splits)
  have p9: "ur_estado p9 = ur_estado p7" "ur_tipo_derecho p9 = ur_tipo_derecho p7"
     "ur_autoridad_responsable p9 = ur_autoridad_responsable p7"
     "ur_visitador_asignado p9 = ur_visitador_asignado p7"
     "ur_notas_seguimiento p9 = ur_notas_seguimiento p7"
     "ur_fecha_presentacion p9 = ur_fecha_presentacion p7"
     and p9m: "case u_fecha_ultimo_movimiento d of
           None \<Rightarrow> ur_fecha_ultimo_movimiento p9 = None
         | Some v \<Rightarrow> ur_fecha_ultimo_movimiento p9 = normalizeDateOnly env v
                     \<and> normalizeDateOnly env v \<noteq> None
                     \<and> \<not> isFutureDate env (the (normalizeDateOnly env v))"
    using f8 f9 p7(6) by (auto split: option.splits)
  show ?thesis
    apply (rule exI[of _ p11])
    using fin ne ord p7 p9 p9m p2f e
    by (simp split: option.splits)
qed

lemma normalizeDateOnly_nonempty: "normalizeDateOnly env v = Some f \<Longrightarrow> f \<noteq> []"
  by (cases "utcFields (the (dateParse env v))")
     (auto simp: normalizeDateOnly_def split: if_splits option.splits)

lemma update_payload_filing_not_future:
  assumes "normalizeUpdatePayload env u = Inr p" and "ur_fecha_presentacion p = Some f"
  shows "\<not> isFutureDate env f"
proof -
  from normalizeUpdatePayload_InrD[OF assms(1)] obtain q where
    q: "p = upd_touch env q"
    and fp: "case u_fecha_presentacion u of
           None \<Rightarrow> ur_fecha_presentacion q = None
         | Some v \<Rightarrow> ur_fecha_presentacion q = normalizeDateOnly env v
                     \<and> normalizeDateOnly env v \<noteq> None
                     \<and> \<not> isFutureDate env (the (normalizeDateOnly env v))"
    by blast
  have "ur_fecha_presentacion p = ur_fecha_presentacion q"
    using q by (simp add: upd_touch_def)
  with assms(2) fp show ?thesis by (auto split: option.splits)
qed

lemma touch_when_tracked_field_changes:
  assumes a: "normalizeUpdatePayload env d = Inr p"
    and h: "u_fecha_ultimo_movimiento d = None"
    and t: "u_estado d \<noteq> None \<or> u_autoridad_responsable d \<noteq> None
           \<or> u_visitador_asignado d \<noteq> None \<or> u_notas_seguimiento d \<noteq> None"
  shows "ur_fecha_ultimo_movimiento p = Some (todayISO env)"
proof -
  from normalizeUpdatePayload_InrD[OF a] obtain q where
    q: "p = upd_touch env q"
    and e: "ur_estado q = u_estado d"
    and au: "(ur_autoridad_responsable q = None \<longleftrightarrow> u_autoridad_responsable d = None)"
    and vi: "(ur_visitador_asignado q = None \<longleftrightarrow> u_visitador_asignado d = None)"
    and no: "(ur_notas_seguimiento q = None \<longleftrightarrow> u_notas_seguimiento d = None)"
    and mv: "case u_fecha_ultimo_movimiento d of
           None \<Rightarrow> ur_fecha_ultimo_movimiento q = None
         | Some v \<Rightarrow> ur_fecha_ultimo_movimiento q = normalizeDateOnly env v
                     \<and> normalizeDateOnly env v \<noteq> None
                     \<and> \<not> isFutureDate env (the (normalizeDateOnly env v))"
    by (elim exE conjE)
  have "ur_fecha_ultimo_movimiento q = None" using mv h by simp
  then have "shouldTouchLastMovement q"
    using t e au vi no by (auto simp: shouldTouchLastMovement_def truthy_def)
  then show ?thesis using q by (simp add: upd_touch_def)
qed

lemma explicit_movement_date_kept:
  assumes a: "normalizeUpdatePayload env d = Inr p"
    and h: "u_fecha_ultimo_movimiento d = Some v"
  shows "normalizeDateOnly env v \<noteq> None \<and> ur_fecha_ultimo_movimiento p = normalizeDateOnly env v"
proof -
  from normalizeUpdatePayload_InrD[OF a] obtain q where
    q: "p = upd_touch env q"
    and mv: "case u_fecha_ultimo_movimiento d of
           None \<Rightarrow> ur_fecha_ultimo_movimiento q = None
         | Some v \<Rightarrow> ur_fecha_ultimo_movimiento q = normalizeDateOnly env v
                     \<and> normalizeDateOnly env v \<noteq> None
                     \<and> \<not> isFutureDate env (the (normalizeDateOnly env v))"
    by (elim exE conjE)
  from mv h have 1: "ur_fecha_ultimo_movimiento q = normalizeDateOnly env v"
    and 2: "normalizeDateOnly env v \<noteq> None" by simp_all
  from 2 obtain f where f: "normalizeDateOnly env v = Some f" by blast
  then have "f \<noteq> []" by (rule normalizeDateOnly_nonempty)
  then have "\<not> shouldTouchLastMovement q"
    using 1 f by (simp add: shouldTouchLastMovement_def truthy_def)
  then have "ur_fecha_ultimo_movimiento p = normalizeDateOnly env v"
    using q 1 by (simp add: upd_touch_def)
  with 2 show ?thesis by simp
qed

lemma empty_steps:
  "upd_folio emptyUpdate p = Inr p" "upd_fecha_presentacion env emptyUpdate p = Inr p"
  "upd_tipo_derecho emptyUpdate p = Inr p" "upd_autoridad_responsable emptyUpdate p = Inr p"
  "upd_visitador_asignado emptyUpdate p = Inr p" "upd_estado emptyUpdate p = Inr p"
  "upd_notas_seguimiento emptyUpdate p = Inr p"
  "upd_fecha_ultimo_movimiento env emptyUpdate p = Inr p"
  "upd_mes_registro emptyUpdate p = Inr p"
  by (simp_all add: emptyUpdate_def upd_folio_def upd_fecha_presentacion_def upd_tipo_derecho_def
        upd_autoridad_responsable_def upd_visitador_asignado_def upd_estado_def
        upd_notas_seguimiento_def upd_fecha_ultimo_movimiento_def upd_mes_registro_def)

lemma empty_update_rejected:
  "normalizeUpdatePayload env emptyUpdate = Inl ''No hay cambios para guardar.''"
  by (simp add: normalizeUpdatePayload_def andThen_def empty_steps upd_order_check_def
        upd_nonempty_check_def truthy_def emptyUpdateRow_def)

subsection \<open>The repository operations, branch by branch\<close>

lemma fetch_requests:
  "st_requests (fetchExpedientes B st) = st_requests st
   \<or> st_requests (fetchExpedientes B st) = st_requests st @ [SelectReq]"
  by (auto simp: fetchExpedientes_def Let_def split: prod.splits reply.splits option.splits)

lemma create_rejects_at_validation:
  "normalizeCreatePayload env d = Inl e \<Longrightarrow> createExpediente B env st d = (failWith e, st)"
  by (simp add: createExpediente_def createExpedienteWith_def)

lemma create_folio_taken:
  "normalizeCreatePayload env d = Inr p \<Longrightarrow> folioTaken (st_expedientes st) (ir_folio p) \<Longrightarrow>
     createExpediente B env st d = (failWith (''El folio '' @ ir_folio p @ '' ya existe.''), st)"
  by (simp add: createExpediente_def createExpedienteWith_def)

lemma createDatesViolated_Inl:
  "createDatesViolated env d \<Longrightarrow> \<exists>e. normalizeCreatePayload env d = Inl e"
proof (cases "normalizeCreatePayload env d")
  case (Inl e) then show ?thesis by simp
next
  case (Inr p)
  from normalizeCreatePayload_InrD[OF Inr] show "createDatesViolated env d \<Longrightarrow> ?thesis"
    by (auto simp: createDatesViolated_def)
qed

lemma create_requests:
  assumes "InsertReq p \<in> set (st_requests (snd (createExpediente B env st d)))"
    and "InsertReq p \<notin> set (st_requests st)"
  shows "normalizeCreatePayload env d = Inr p"
proof (cases "normalizeCreatePayload env d")
  case (Inl e)
  with assms show ?thesis by (simp add: create_rejects_at_validation)
next
  case (Inr q)
  show ?thesis
  proof (cases "folioTaken (st_expedientes st) (ir_folio q)")
    case True
    with Inr assms show ?thesis by (simp add: createExpediente_def createExpedienteWith_def)
  next
    case False
    obtain response db where ins: "insertRow B (st_server st) q = (response, db)"
      by (cases "insertRow B (st_server st) q")
    let ?st1 = "st\<lparr>st_server := db, st_requests := st_requests st @ [InsertReq q]\<rparr>"
    have "st_requests (snd (createExpediente B env st d)) = st_requests ?st1
          \<or> st_requests (snd (createExpediente B env st d)) = st_requests ?st1 @ [SelectReq]"
      using Inr False ins fetch_requests[of B ?st1]
      by (auto simp: createExpediente_def createExpedienteWith_def Let_def
               split: reply.splits option.splits)
    with assms have "p = q" by auto
    with Inr show ?thesis by simp
  qed
qed

lemma update_invalid_id:
  "\<not> isUuid ident \<Longrightarrow>
     updateExpediente B env st ident u = (failWith ''Identificador de expediente invalido.'', st)"
  by (simp add: updateExpediente_def)

lemma update_not_found:
  "isUuid ident \<Longrightarrow> find (\<lambda>item. e_id item = ident) (st_expedientes st) = None \<Longrightarrow>
     updateExpediente B env st ident u
       = (failWith ''No se encontro el expediente a actualizar.'', st)"
  by (simp add: updateExpediente_def)

lemma update_validation_error:
  "isUuid ident \<Longrightarrow> find (\<lambda>item. e_id item = ident) (st_expedientes st) = Some current \<Longrightarrow>
     normalizeUpdatePayload env u = Inl e \<Longrightarrow>
     updateExpediente B env st ident u = (failWith e, st)"
  by (simp add: updateExpediente_def)

lemma update_requests:
  assumes "UpdateReq ident p \<in> set (st_requests (snd (updateExpediente B env st ident u)))"
    and "UpdateReq ident p \<notin> set (st_requests st)"
  shows "\<exists>current. find (\<lambda>item. e_id item = ident) (st_expedientes st) = Some current
          \<and> normalizeUpdatePayload env u = Inr p
          \<and> \<not> strLess (orElse (ur_fecha_ultimo_movimiento p) (e_fecha_ultimo_movimiento current))
                       (orElse (ur_fecha_presentacion p) (e_fecha_presentacion current))
          \<and> \<not> isFutureDate env
                 (orElse (ur_fecha_ultimo_movimiento p) (e_fecha_ultimo_movimiento current))"
proof -
  have moved: "snd (updateExpediente B env st ident u) \<noteq> st" using assms by auto
  have u: "isUuid ident"
    using moved update_invalid_id[of ident B env st u] by (metis snd_conv)
  have "find (\<lambda>item. e_id item = ident) (st_expedientes st) \<noteq> None"
    using moved u update_not_found[of ident st B env u] by (metis snd_conv)
  then obtain current where
    f: "find (\<lambda>item. e_id item = ident) (st_expedientes st) = Some current"
    by blast
  have "\<And>e. normalizeUpdatePayload env u \<noteq> Inl e"
    using moved u f update_validation_error[of ident st current env u _ B] by (metis snd_conv)
  then obtain q where n: "normalizeUpdatePayload env u = Inr q"
    by (cases "normalizeUpdatePayload env u") auto
  let ?pres = "orElse (ur_fecha_presentacion q) (e_fecha_presentacion current)"
  let ?mov = "orElse (ur_fecha_ultimo_movimiento q) (e_fecha_ultimo_movimiento current)"
  let ?dup = "truthy (ur_folio q)
             \<and> list_ex (\<lambda>item. e_id item \<noteq> ident
                               \<and> toUpperCase (e_folio item) = toUpperCase (the (ur_folio q)))
                  (st_expedientes st)"
  have nd: "\<not> ?dup"
  proof
    assume ?dup
    then have "snd (updateExpediente B env st ident u) = st"
      using u f n by (simp add: updateExpediente_def)
    with moved show False by simp
  qed
  have o: "\<not> strLess ?mov ?pres"
  proof
    assume "strLess ?mov ?pres"
    then have "snd (updateExpediente B env st ident u) = st"
      using u f n nd by (simp add: updateExpediente_def Let_def)
    with moved show False by simp
  qed
  have nf: "\<not> isFutureDate env ?mov"
  proof
    assume "isFutureDate env ?mov"
    then have "snd (updateExpediente B env st ident u) = st"
      using u f n nd o by (simp add: updateExpediente_def Let_def)
    with moved show False by simp
  qed
  obtain response db where upd: "updateRow B (st_server st) ident q = (response, db)"
    by (cases "updateRow B (st_server st) ident q")
  let ?st1 = "st\<lparr>st_server := db, st_requests := st_requests st @ [UpdateReq ident q]\<rparr>"
  have "st_requests (snd (updateExpediente B env st ident u)) = st_requests ?st1
        \<or> st_requests (snd (updateExpediente B env st ident u)) = st_requests ?st1 @ [SelectReq]"
    using u f n nd o nf upd fetch_requests[of B ?st1]
    by (auto simp: updateExpediente_def Let_def split: reply.splits option.splits)
  with assms have "p = q" by auto
  with f n o nf show ?thesis by auto
qed

lemma find_present:
  "ident \<in> set (map e_id items) \<Longrightarrow> \<exists>current. find (\<lambda>item. e_id item = ident) items = Some current"
  by (induction items) auto

lemma find_absent:
  "ident \<notin> set (map e_id items) \<Longrightarrow> find (\<lambda>item. e_id item = ident) items = None"
  by (induction items) auto

lemma delete_invalid_id:
  "\<not> isUuid ident \<Longrightarrow>
     deleteExpediente B st ident = (Some ''Identificador de expediente invalido.'', st)"
  by (simp add: deleteExpediente_def)

lemma delete_sends_request:
  "isUuid ident \<Longrightarrow>
     take (Suc (length (st_requests st))) (st_requests (snd (deleteExpediente B st ident)))
       = st_requests st @ [DeleteReq ident]"
proof -
  assume u: "isUuid ident"
  obtain response db where d: "deleteRow B (st_server st) ident = (response, db)"
    by (cases "deleteRow B (st_server st) ident")
  let ?st1 = "st\<lparr>st_server := db, st_requests := st_requests st @ [DeleteReq ident]\<rparr>"
  have "st_requests (snd (deleteExpediente B st ident)) = st_requests ?st1
        \<or> st_requests (snd (deleteExpediente B st ident)) = st_requests ?st1 @ [SelectReq]"
    using u d fetch_requests[of B ?st1]
    by (auto simp: deleteExpediente_def Let_def split: reply.splits option.splits)
  then show ?thesis by auto
qed

subsection \<open>The worked examples, evaluated\<close>

lemma ex_uuid: "memUuid (Suc 0) = ''00000000-0000-4000-8000-000000000001''"
  "isUuid ''00000000-0000-4000-8000-000000000001''"
  by code_simp+

lemma ex_upper: "toUpperCase ''CEDHBC-2026-001'' = ''CEDHBC-2026-001''"
  by code_simp

lemma ex_folio2: "normalizeFolio ''cedhbc-2026-001'' = ''CEDHBC-2026-001''"
  by code_simp

lemma ex_today: "todayISO examplePlatform = ''2026-03-10''"
  by code_simp

lemma ex_today_not_future: "\<not> isFutureDate examplePlatform ''2026-03-10''"
  by code_simp

lemma ex_tomorrow: "normalizeDateOnly examplePlatform ''2026-03-11'' = Some ''2026-03-11''"
  "isFutureDate examplePlatform ''2026-03-11''"
  by code_simp+

lemma ex_feb: "normalizeDateOnly examplePlatform ''2026-02-01'' = Some ''2026-02-01''"
  "\<not> isFutureDate examplePlatform ''2026-02-01''"
  by code_simp+

lemma ex_estado: "''Resuelta'' \<in> set ESTADOS"
  by code_simp

lemma ex_absent: "isUuid absentId"
  by code_simp

lemma ex_version7: "\<not> isUuid version7Id"
  by code_simp

lemma example_create:
  "createExpediente memBackend examplePlatform emptyState exampleInsert
     = (\<lparr> r_error = None, r_data = Some exampleExpediente \<rparr>,
        exampleState\<lparr>st_requests := [InsertReq exampleRow, SelectReq]\<rparr>)"
  unfolding createExpediente_def createExpedienteWith_def
  by (simp add: example_create_payload emptyState_def exampleState_def folioTaken_def
        memBackend_def memInsert_def memSelect_def fetchExpedientes_def Let_def orElse_def
        ex_uuid exampleRow_def exampleExpediente_def)

lemma example_resolve_payload:
  "normalizeUpdatePayload examplePlatform resolvePatch = Inr resolveRow"
  by (simp add: normalizeUpdatePayload_def andThen_def resolvePatch_def resolveRow_def
        emptyUpdate_def upd_folio_def upd_fecha_presentacion_def upd_tipo_derecho_def
        upd_autoridad_responsable_def upd_visitador_asignado_def upd_estado_def
        upd_notas_seguimiento_def upd_fecha_ultimo_movimiento_def upd_mes_registro_def
        upd_order_check_def upd_nonempty_check_def upd_touch_def shouldTouchLastMovement_def
        truthy_def emptyUpdateRow_def ex_estado ex_today)

lemma example_dated_payload:
  "normalizeUpdatePayload examplePlatform datedPatch = Inr datedRow"
  by (simp add: normalizeUpdatePayload_def andThen_def datedPatch_def datedRow_def
        emptyUpdate_def upd_folio_def upd_fecha_presentacion_def upd_tipo_derecho_def
        upd_autoridad_responsable_def upd_visitador_asignado_def upd_estado_def
        upd_notas_seguimiento_def upd_fecha_ultimo_movimiento_def upd_mes_registro_def
        upd_order_check_def upd_nonempty_check_def upd_touch_def shouldTouchLastMovement_def
        truthy_def emptyUpdateRow_def ex_estado ex_feb)

lemma example_future_payload:
  "normalizeCreatePayload examplePlatform futureInsert
     = Inl ''La fecha de presentacion no puede ser futura.''"
  unfolding normalizeCreatePayload_def futureInsert_def exampleInsert_def
  by (simp add: Let_def ex_folio ex_valid ex_tomorrow ex_misc)

lemma example_duplicate_payload:
  "normalizeCreatePayload examplePlatform duplicateInsert = Inr exampleRow"
  unfolding normalizeCreatePayload_def duplicateInsert_def exampleInsert_def exampleRow_def
  by (simp add: Let_def orElse_def ex_folio2 ex_valid ex_date ex_not_future ex_mes ex_truncate
        ex_misc del: strLess.simps)

lemma example_duplicate_future_payload:
  "normalizeCreatePayload examplePlatform duplicateFutureInsert
     = Inl ''La fecha de presentacion no puede ser futura.''"
  unfolding normalizeCreatePayload_def duplicateFutureInsert_def futureInsert_def exampleInsert_def
  by (simp add: Let_def ex_folio2 ex_valid ex_tomorrow ex_misc)

lemma example_folio_taken:
  "folioTaken (st_expedientes exampleState) ''CEDHBC-2026-001''"
  by (simp add: folioTaken_def exampleState_def exampleExpediente_def ex_upper)

lemma example_violation: "createDatesViolated examplePlatform futureInsert"
  by (simp add: createDatesViolated_def futureInsert_def exampleInsert_def ex_tomorrow)

lemma example_update:
  "updateExpediente memBackend examplePlatform exampleState (e_id exampleExpediente) resolvePatch
     = (\<lparr> r_error = None,
          r_data = Some (exampleExpediente\<lparr>e_estado := ''Resuelta'',
                                           e_fecha_ultimo_movimiento := ''2026-03-10''\<rparr>) \<rparr>,
        \<lparr> st_session = True,
          st_expedientes = [exampleExpediente\<lparr>e_estado := ''Resuelta'',
                                               e_fecha_ultimo_movimiento := ''2026-03-10''\<rparr>],
          st_loading = False, st_error = None,
          st_server = \<lparr> db_rows = [exampleExpediente\<lparr>e_estado := ''Resuelta'',
                                                      e_fecha_ultimo_movimiento := ''2026-03-10''\<rparr>],
                        db_nextId = 2, db_stamp = ''2026-03-10T20:00:00Z'' \<rparr>,
          st_requests = [UpdateReq (e_id exampleExpediente) resolveRow, SelectReq] \<rparr>)"
proof -
  have s: "\<not> strLess ''2026-03-10'' ''2026-01-15''" by code_simp
  show ?thesis
    unfolding updateExpediente_def
    by (simp add: example_resolve_payload exampleState_def exampleExpediente_def ex_uuid
          resolveRow_def emptyUpdateRow_def truthy_def orElse_def Let_def s ex_today_not_future
          memBackend_def memUpdate_def memSelect_def fetchExpedientes_def applyPatch_def
          del: strLess.simps)
qed

subsection \<open>The date checks of create and update, in the source's terms\<close>

text \<open>
  What the two operations enforce, with the tests of the source: ``after today'' is
  \<open>isFutureDate\<close> and ``earlier'' is \<open><\<close> on the normalized date strings.
  \<open>createExpediente\<close> returns the validator's error, sends nothing and leaves the state as
  it was whenever the filing date does not parse or is after today, or the last-movement
  date (the filing date when the input has none) does not parse, is after today or is earlier
  than the filing date. Every insert request it sends carries a last-movement date not
  earlier than the filing date, both not after today. Every update request
  \<open>updateExpediente\<close> sends keeps the same order between the effective last-movement date
  and the effective filing date (the patch's value, else the current record's), the effective
  last-movement date is not after today, and a patched filing date is not after today.
\<close>

theorem date_ordering_enforced:
  "(createDatesViolated env d \<longrightarrow>
      (\<exists>e. normalizeCreatePayload env d = Inl e \<and> createExpediente B env st d = (failWith e, st)))
   \<and> (\<forall>p. InsertReq p \<in> set (st_requests (snd (createExpediente B env st d)))
           \<and> InsertReq p \<notin> set (st_requests st)
        \<longrightarrow> datesInOrder env (ir_fecha_presentacion p) (ir_fecha_ultimo_movimiento p))
   \<and> (\<forall>p. UpdateReq ident p \<in> set (st_requests (snd (updateExpediente B env st ident u)))
           \<and> UpdateReq ident p \<notin> set (st_requests st)
        \<longrightarrow> (\<exists>current. find (\<lambda>item. e_id item = ident) (st_expedientes st) = Some current
              \<and> \<not> strLess
                    (orElse (ur_fecha_ultimo_movimiento p) (e_fecha_ultimo_movimiento current))
                    (orElse (ur_fecha_presentacion p) (e_fecha_presentacion current))
              \<and> \<not> isFutureDate env
                    (orElse (ur_fecha_ultimo_movimiento p) (e_fecha_ultimo_movimiento current))
              \<and> (\<forall>f. ur_fecha_presentacion p = Some f \<longrightarrow> \<not> isFutureDate env f)))"
proof (intro conjI allI impI)
  assume "createDatesViolated env d"
  then obtain e where "normalizeCreatePayload env d = Inl e"
    using createDatesViolated_Inl by blast
  then show "\<exists>e. normalizeCreatePayload env d = Inl e \<and> createExpediente B env st d = (failWith e, st)"
    by (auto simp: create_rejects_at_validation)
next
  fix p
  assume "InsertReq p \<in> set (st_requests (snd (createExpediente B env st d)))
           \<and> InsertReq p \<notin> set (st_requests st)"
  then have "normalizeCreatePayload env d = Inr p" using create_requests by blast
  from normalizeCreatePayload_InrD[OF this]
  show "datesInOrder env (ir_fecha_presentacion p) (ir_fecha_ultimo_movimiento p)"
    by (auto simp: datesInOrder_def)
next
  fix p
  assume "UpdateReq ident p \<in> set (st_requests (snd (updateExpediente B env st ident u)))
           \<and> UpdateReq ident p \<notin> set (st_requests st)"
  then obtain current where
    c: "find (\<lambda>item. e_id item = ident) (st_expedientes st) = Some current"
    and n: "normalizeUpdatePayload env u = Inr p"
    and o: "\<not> strLess (orElse (ur_fecha_ultimo_movimiento p) (e_fecha_ultimo_movimiento current))
                       (orElse (ur_fecha_presentacion p) (e_fecha_presentacion current))"
    and nf: "\<not> isFutureDate env
                 (orElse (ur_fecha_ultimo_movimiento p) (e_fecha_ultimo_movimiento current))"
    using update_requests by blast
  have "\<forall>f. ur_fecha_presentacion p = Some f \<longrightarrow> \<not> isFutureDate env f"
    using update_payload_filing_not_future[OF n] by blast
  with c o nf show "\<exists>current. find (\<lambda>item. e_id item = ident) (st_expedientes st) = Some current
              \<and> \<not> strLess
                    (orElse (ur_fecha_ultimo_movimiento p) (e_fecha_ultimo_movimiento current))
                    (orElse (ur_fecha_presentacion p) (e_fecha_presentacion current))
              \<and> \<not> isFutureDate env
                    (orElse (ur_fecha_ultimo_movimiento p) (e_fecha_ultimo_movimiento current))
              \<and> (\<forall>f. ur_fecha_presentacion p = Some f \<longrightarrow> \<not> isFutureDate env f)"
    by blast
qed

text \<open>
  The theorem at work: an input filed tomorrow is refused at validation, the example input
  is sent with its dates in order, and so is the patch that resolves the stored case.
\<close>

theorem date_ordering_enforced_witness:
  "createDatesViolated examplePlatform futureInsert
   \<and> createExpediente memBackend examplePlatform emptyState futureInsert
       = (failWith ''La fecha de presentacion no puede ser futura.'', emptyState)
   \<and> InsertReq exampleRow
       \<in> set (st_requests (snd (createExpediente memBackend examplePlatform emptyState exampleInsert)))
   \<and> InsertReq exampleRow \<notin> set (st_requests emptyState)
   \<and> datesInOrder examplePlatform (ir_fecha_presentacion exampleRow)
        (ir_fecha_ultimo_movimiento exampleRow)
   \<and> UpdateReq (e_id exampleExpediente) resolveRow
       \<in> set (st_requests (snd (updateExpediente memBackend examplePlatform exampleState
                                  (e_id exampleExpediente) resolvePatch)))
   \<and> UpdateReq (e_id exampleExpediente) resolveRow \<notin> set (st_requests exampleState)
   \<and> \<not> strLess ''2026-03-10'' ''2026-01-15''
   \<and> \<not> isFutureDate examplePlatform ''2026-03-10''"
proof -
  have a1: "InsertReq exampleRow
       \<in> set (st_requests (snd (createExpediente memBackend examplePlatform emptyState exampleInsert)))"
    by (simp add: example_create)
  have a2: "InsertReq exampleRow \<notin> set (st_requests emptyState)"
    by (simp add: emptyState_def)
  have b1: "UpdateReq (e_id exampleExpediente) resolveRow
       \<in> set (st_requests (snd (updateExpediente memBackend examplePlatform exampleState
                                  (e_id exampleExpediente) resolvePatch)))"
    by (simp add: example_update)
  have b2: "UpdateReq (e_id exampleExpediente) resolveRow \<notin> set (st_requests exampleState)"
    by (simp add: exampleState_def)
  have c: "find (\<lambda>item. e_id item = e_id exampleExpediente) (st_expedientes exampleState)
             = Some exampleExpediente"
    by (simp add: exampleState_def)
  have r: "orElse (ur_fecha_ultimo_movimiento resolveRow)
             (e_fecha_ultimo_movimiento exampleExpediente) = ''2026-03-10''"
     "orElse (ur_fecha_presentacion resolveRow)
             (e_fecha_presentacion exampleExpediente) = ''2026-01-15''"
    by (simp_all add: resolveRow_def emptyUpdateRow_def orElse_def exampleExpediente_def)
  note t1 = date_ordering_enforced
              [of examplePlatform futureInsert memBackend emptyState "''x''" emptyUpdate]
  note t2 = date_ordering_enforced
              [of examplePlatform exampleInsert memBackend emptyState "''x''" emptyUpdate]
  note t3 = date_ordering_enforced
              [of examplePlatform exampleInsert memBackend exampleState
                  "e_id exampleExpediente" resolvePatch]
  from t1 example_violation obtain e where
    e: "normalizeCreatePayload examplePlatform futureInsert = Inl e"
       "createExpediente memBackend examplePlatform emptyState futureInsert = (failWith e, emptyState)"
    by blast
  from e(1) have "e = ''La fecha de presentacion no puede ser futura.''"
    by (simp add: example_future_payload)
  with e(2) have 1: "createExpediente memBackend examplePlatform emptyState futureInsert
       = (failWith ''La fecha de presentacion no puede ser futura.'', emptyState)"
    by simp
  have 2: "datesInOrder examplePlatform (ir_fecha_presentacion exampleRow)
        (ir_fecha_ultimo_movimiento exampleRow)"
    using t2 a1 a2 by blast
  from t3 b1 b2 obtain current where
    cur: "find (\<lambda>item. e_id item = e_id exampleExpediente) (st_expedientes exampleState)
            = Some current"
    and o: "\<not> strLess
                    (orElse (ur_fecha_ultimo_movimiento resolveRow) (e_fecha_ultimo_movimiento current))
                    (orElse (ur_fecha_presentacion resolveRow) (e_fecha_presentacion current))"
    and nf: "\<not> isFutureDate examplePlatform
                    (orElse (ur_fecha_ultimo_movimiento resolveRow) (e_fecha_ultimo_movimiento current))"
    by blast
  from cur c have "current = exampleExpediente" by simp
  with o nf r have 3: "\<not> strLess ''2026-03-10'' ''2026-01-15''"
    "\<not> isFutureDate examplePlatform ''2026-03-10''"
    by (simp_all del: strLess.simps)
  from example_violation 1 a1 a2 2 b1 b2 3 show ?thesis by blast
qed

subsection \<open>Claim C1\<close>

lemma ex_ancient:
  "normalizeDateOnly examplePlatform ''0099-01-01'' = Some ''99-01-01''"
  "\<not> isFutureDate examplePlatform ''99-01-01''"
  "\<not> strLess ''99-01-01'' ''2026-01-15''"
  "earlierDay examplePlatform ''0099-01-01'' ''2026-01-15''"
  by code_simp+

lemma example_ancient_payload:
  "normalizeCreatePayload examplePlatform ancientInsert = Inr ancientRow"
  unfolding normalizeCreatePayload_def ancientInsert_def exampleInsert_def ancientRow_def
    exampleRow_def
  by (simp add: Let_def orElse_def ex_folio ex_valid ex_date ex_not_future ex_mes ex_truncate
        ex_misc ex_ancient del: strLess.simps)

lemma example_ancient_create:
  "r_error (fst (createExpediente memBackend examplePlatform emptyState ancientInsert)) = None"
  "st_requests (snd (createExpediente memBackend examplePlatform emptyState ancientInsert))
     = [InsertReq ancientRow, SelectReq]"
  unfolding createExpediente_def createExpedienteWith_def
  by (simp_all add: example_ancient_payload emptyState_def folioTaken_def
        memBackend_def memInsert_def memSelect_def fetchExpedientes_def Let_def orElse_def)

lemma example_ancient_update_payload:
  "normalizeUpdatePayload examplePlatform ancientPatch = Inr ancientUpdateRow"
  by (simp add: normalizeUpdatePayload_def andThen_def ancientPatch_def ancientUpdateRow_def
        emptyUpdate_def upd_folio_def upd_fecha_presentacion_def upd_tipo_derecho_def
        upd_autoridad_responsable_def upd_visitador_asignado_def upd_estado_def
        upd_notas_seguimiento_def upd_fecha_ultimo_movimiento_def upd_mes_registro_def
        upd_order_check_def upd_nonempty_check_def upd_touch_def shouldTouchLastMovement_def
        truthy_def emptyUpdateRow_def ex_ancient)

lemma example_ancient_update:
  "r_error (fst (updateExpediente memBackend examplePlatform exampleState
                   (e_id exampleExpediente) ancientPatch)) = None"
  "st_requests (snd (updateExpediente memBackend examplePlatform exampleState
                       (e_id exampleExpediente) ancientPatch))
     = [UpdateReq (e_id exampleExpediente) ancientUpdateRow, SelectReq]"
  unfolding updateExpediente_def
  by (simp_all add: example_ancient_update_payload exampleState_def exampleExpediente_def ex_uuid
        ancientUpdateRow_def emptyUpdateRow_def truthy_def orElse_def Let_def ex_ancient
        memBackend_def memUpdate_def memSelect_def fetchExpedientes_def applyPatch_def
        del: strLess.simps)

text \<open>
  C1. The order of the dates is not enforced for a year of fewer than four digits. The
  validator prints the year of a normalized date without padding, compares the normalized
  dates as strings, and takes a date it cannot read back for not future. A last movement on
  1 January of the year 99 is before a filing on 15 January 2026, yet \<open>createExpediente\<close>
  returns no error and sends the row with the dates \<open>2026-01-15\<close> and \<open>99-01-01\<close>, and
  \<open>updateExpediente\<close> sends the same last-movement date for the stored case filed on
  15 January 2026.
\<close>

theorem unpadded_year_escapes_date_order:
  "earlierDay examplePlatform ''0099-01-01'' ''2026-01-15''
   \<and> i_fecha_presentacion ancientInsert = ''2026-01-15''
   \<and> i_fecha_ultimo_movimiento ancientInsert = Some ''0099-01-01''
   \<and> normalizeCreatePayload examplePlatform ancientInsert = Inr ancientRow
   \<and> ir_fecha_presentacion ancientRow = ''2026-01-15''
   \<and> ir_fecha_ultimo_movimiento ancientRow = ''99-01-01''
   \<and> r_error (fst (createExpediente memBackend examplePlatform emptyState ancientInsert)) = None
   \<and> st_requests (snd (createExpediente memBackend examplePlatform emptyState ancientInsert))
       = [InsertReq ancientRow, SelectReq]
   \<and> e_fecha_presentacion exampleExpediente = ''2026-01-15''
   \<and> r_error (fst (updateExpediente memBackend examplePlatform exampleState
                      (e_id exampleExpediente) ancientPatch)) = None
   \<and> st_requests (snd (updateExpediente memBackend examplePlatform exampleState
                          (e_id exampleExpediente) ancientPatch))
       = [UpdateReq (e_id exampleExpediente) ancientUpdateRow, SelectReq]
   \<and> ur_fecha_ultimo_movimiento ancientUpdateRow = Some ''99-01-01''"
  by (simp add: ex_ancient example_ancient_payload example_ancient_create example_ancient_update)
     (simp add: ancientInsert_def exampleInsert_def ancientRow_def exampleRow_def
        exampleExpediente_def ancientUpdateRow_def)

subsection \<open>Claim C2\<close>

text \<open>
  C2, as amended. When the normalized folio of a create input equals the folio of a snapshot
  entry up to letter case, \<open>createExpediente\<close> returns an error before any network call and
  leaves the state unchanged: the validator's error when the input fails validation (the
  validator runs first), the uniqueness conflict \<open>El folio ... ya existe.\<close> otherwise.
\<close>

theorem create_duplicate_folio_rejected:
  "folioTaken (st_expedientes st) (take FIELD_LIMITS_folio (normalizeFolio (i_folio d))) \<longrightarrow>
     createExpediente B env st d
       = (failWith (case normalizeCreatePayload env d of
                      Inl validationError \<Rightarrow> validationError
                    | Inr payload \<Rightarrow> ''El folio '' @ ir_folio payload @ '' ya existe.''), st)"
proof
  assume t: "folioTaken (st_expedientes st) (take FIELD_LIMITS_folio (normalizeFolio (i_folio d)))"
  show "createExpediente B env st d
       = (failWith (case normalizeCreatePayload env d of
                      Inl validationError \<Rightarrow> validationError
                    | Inr payload \<Rightarrow> ''El folio '' @ ir_folio payload @ '' ya existe.''), st)"
  proof (cases "normalizeCreatePayload env d")
    case (Inl e)
    then show ?thesis by (simp add: create_rejects_at_validation)
  next
    case (Inr p)
    from normalizeCreatePayload_InrD[OF Inr]
    have "ir_folio p = take FIELD_LIMITS_folio (normalizeFolio (i_folio d))" by (elim exE conjE)
    with t have "folioTaken (st_expedientes st) (ir_folio p)" by simp
    with Inr show ?thesis by (simp add: create_folio_taken)
  qed
qed

text \<open>The second create of a folio that differs only in case gets the conflict.\<close>

theorem create_duplicate_folio_rejected_witness:
  "folioTaken (st_expedientes exampleState)
     (take FIELD_LIMITS_folio (normalizeFolio (i_folio duplicateInsert)))
   \<and> createExpediente memBackend examplePlatform exampleState duplicateInsert
       = (failWith ''El folio CEDHBC-2026-001 ya existe.'', exampleState)"
proof -
  have h: "folioTaken (st_expedientes exampleState)
     (take FIELD_LIMITS_folio (normalizeFolio (i_folio duplicateInsert)))"
    by (simp add: duplicateInsert_def ex_folio2 ex_misc example_folio_taken)
  from create_duplicate_folio_rejected[of exampleState duplicateInsert memBackend examplePlatform] h
  have "createExpediente memBackend examplePlatform exampleState duplicateInsert
       = (failWith (case normalizeCreatePayload examplePlatform duplicateInsert of
                      Inl validationError \<Rightarrow> validationError
                    | Inr payload \<Rightarrow> ''El folio '' @ ir_folio payload @ '' ya existe.''),
          exampleState)"
    by blast
  then have "createExpediente memBackend examplePlatform exampleState duplicateInsert
       = (failWith ''El folio CEDHBC-2026-001 ya existe.'', exampleState)"
    by (simp add: example_duplicate_payload exampleRow_def)
  with h show ?thesis by simp
qed

text \<open>
  C2 as stated fails: an input that repeats a stored folio and is filed tomorrow gets the
  future-date error of the validator, not the uniqueness conflict.
\<close>

theorem create_duplicate_folio_counterexample:
  "folioTaken (st_expedientes exampleState)
     (take FIELD_LIMITS_folio (normalizeFolio (i_folio duplicateFutureInsert)))
   \<and> createExpediente memBackend examplePlatform exampleState duplicateFutureInsert
       = (failWith ''La fecha de presentacion no puede ser futura.'', exampleState)"
proof -
  have h: "folioTaken (st_expedientes exampleState)
     (take FIELD_LIMITS_folio (normalizeFolio (i_folio duplicateFutureInsert)))"
    by (simp add: duplicateFutureInsert_def ex_folio2 ex_misc example_folio_taken)
  have "createExpediente memBackend examplePlatform exampleState duplicateFutureInsert
       = (failWith ''La fecha de presentacion no puede ser futura.'', exampleState)"
    by (simp add: create_rejects_at_validation example_duplicate_future_payload)
  with h show ?thesis by simp
qed

subsection \<open>Claim C3\<close>

text \<open>
  C3, as amended. For an identifier absent from the snapshot, \<open>updateExpediente\<close> fails
  locally, with no network call and the state unchanged: with the not-found error when the
  identifier has the shape of a UUID, with the invalid-identifier error otherwise.
  \<open>deleteExpediente\<close> refuses locally only an identifier that is not a UUID; for a UUID it
  does not consult the snapshot and sends the delete request to the backend.
\<close>

theorem absent_id_update_and_delete:
  "ident \<notin> set (map e_id (st_expedientes st)) \<longrightarrow>
     updateExpediente B env st ident d
       = (failWith (if isUuid ident then ''No se encontro el expediente a actualizar.''
                    else ''Identificador de expediente invalido.''), st)
     \<and> (if isUuid ident
        then take (Suc (length (st_requests st))) (st_requests (snd (deleteExpediente B st ident)))
               = st_requests st @ [DeleteReq ident]
        else deleteExpediente B st ident
               = (Some ''Identificador de expediente invalido.'', st))"
proof
  assume a: "ident \<notin> set (map e_id (st_expedientes st))"
  then have f: "find (\<lambda>item. e_id item = ident) (st_expedientes st) = None"
    by (rule find_absent)
  show "updateExpediente B env st ident d
       = (failWith (if isUuid ident then ''No se encontro el expediente a actualizar.''
                    else ''Identificador de expediente invalido.''), st)
     \<and> (if isUuid ident
        then take (Suc (length (st_requests st))) (st_requests (snd (deleteExpediente B st ident)))
               = st_requests st @ [DeleteReq ident]
        else deleteExpediente B st ident
               = (Some ''Identificador de expediente invalido.'', st))"
  proof (cases "isUuid ident")
    case True
    with f show ?thesis by (simp add: update_not_found delete_sends_request)
  next
    case False
    then show ?thesis by (simp add: update_invalid_id delete_invalid_id)
  qed
qed

text \<open>An absent UUID and an absent identifier that is no UUID, in the example state.\<close>

theorem absent_id_update_and_delete_witness:
  "absentId \<notin> set (map e_id (st_expedientes exampleState))
   \<and> updateExpediente memBackend examplePlatform exampleState absentId resolvePatch
       = (failWith ''No se encontro el expediente a actualizar.'', exampleState)
   \<and> ''7'' \<notin> set (map e_id (st_expedientes exampleState))
   \<and> updateExpediente memBackend examplePlatform exampleState ''7'' resolvePatch
       = (failWith ''Identificador de expediente invalido.'', exampleState)
   \<and> deleteExpediente memBackend exampleState ''7''
       = (Some ''Identificador de expediente invalido.'', exampleState)"
proof -
  have h: "absentId \<notin> set (map e_id (st_expedientes exampleState))"
    "''7'' \<notin> set (map e_id (st_expedientes exampleState))"
    by (simp_all add: exampleState_def exampleExpediente_def absentId_def)
  have n: "\<not> isUuid ''7''" by code_simp
  from absent_id_update_and_delete[of absentId exampleState memBackend examplePlatform resolvePatch]
       h(1) ex_absent
  have 1: "updateExpediente memBackend examplePlatform exampleState absentId resolvePatch
       = (failWith ''No se encontro el expediente a actualizar.'', exampleState)"
    by simp
  from absent_id_update_and_delete[of "''7''" exampleState memBackend examplePlatform resolvePatch]
       h(2) n
  have 2: "updateExpediente memBackend examplePlatform exampleState ''7'' resolvePatch
       = (failWith ''Identificador de expediente invalido.'', exampleState)
    \<and> deleteExpediente memBackend exampleState ''7''
       = (Some ''Identificador de expediente invalido.'', exampleState)"
    by simp
  from h 1 2 show ?thesis by simp
qed

text \<open>
  C3 as stated fails for \<open>deleteExpediente\<close>: with a UUID no row has, it reports no error
  and has sent a delete request and a refetch.
\<close>

theorem absent_id_delete_counterexample:
  "absentId \<notin> set (map e_id (st_expedientes exampleState))
   \<and> deleteExpediente memBackend exampleState absentId
       = (None, exampleState\<lparr>st_requests := [DeleteReq absentId, SelectReq]\<rparr>)"
proof -
  have h: "absentId \<notin> set (map e_id (st_expedientes exampleState))"
    by (simp add: exampleState_def exampleExpediente_def absentId_def)
  have ne: "e_id exampleExpediente \<noteq> absentId"
    by (simp add: exampleExpediente_def absentId_def)
  have "deleteExpediente memBackend exampleState absentId
       = (None, exampleState\<lparr>st_requests := [DeleteReq absentId, SelectReq]\<rparr>)"
    unfolding deleteExpediente_def
    by (simp add: ex_absent ne exampleState_def memBackend_def memDelete_def memSelect_def
          fetchExpedientes_def Let_def orElse_def)
  with h show ?thesis by simp
qed

subsection \<open>The stamp of the last movement\<close>

text \<open>
  When the update validator accepts a patch that has no last-movement date of its own but
  sets the status, the authority, the handler or the notes, the last-movement date of the
  payload is the UTC date of the clock, as \<open>toISOString\<close> gives it. When the patch supplies
  a last-movement date, the payload carries that date, normalized, and not the stamp.
\<close>

theorem update_touches_last_movement:
  "normalizeUpdatePayload env d = Inr p \<longrightarrow>
     (u_fecha_ultimo_movimiento d = None
        \<and> (u_estado d \<noteq> None \<or> u_autoridad_responsable d \<noteq> None
           \<or> u_visitador_asignado d \<noteq> None \<or> u_notas_seguimiento d \<noteq> None)
      \<longrightarrow> ur_fecha_ultimo_movimiento p = Some (todayISO env))
     \<and> (\<forall>v. u_fecha_ultimo_movimiento d = Some v
           \<longrightarrow> normalizeDateOnly env v \<noteq> None
               \<and> ur_fecha_ultimo_movimiento p = normalizeDateOnly env v)"
  using touch_when_tracked_field_changes[of env d p] explicit_movement_date_kept[of env d p]
  by blast

text \<open>
  Resolving the example case on 10 March 2026 stamps that day; resolving it with the date
  1 February 2026 keeps 1 February.
\<close>

theorem update_touches_last_movement_witness:
  "normalizeUpdatePayload examplePlatform resolvePatch = Inr resolveRow
   \<and> u_fecha_ultimo_movimiento resolvePatch = None \<and> u_estado resolvePatch \<noteq> None
   \<and> ur_fecha_ultimo_movimiento resolveRow = Some ''2026-03-10''
   \<and> normalizeUpdatePayload examplePlatform datedPatch = Inr datedRow
   \<and> u_fecha_ultimo_movimiento datedPatch = Some ''2026-02-01''
   \<and> ur_fecha_ultimo_movimiento datedRow = Some ''2026-02-01''"
proof -
  have h: "u_fecha_ultimo_movimiento resolvePatch = None" "u_estado resolvePatch \<noteq> None"
    "u_fecha_ultimo_movimiento datedPatch = Some ''2026-02-01''"
    by (simp_all add: resolvePatch_def datedPatch_def emptyUpdate_def)
  from update_touches_last_movement[of examplePlatform resolvePatch resolveRow]
       example_resolve_payload h ex_today
  have 1: "ur_fecha_ultimo_movimiento resolveRow = Some ''2026-03-10''" by simp
  from update_touches_last_movement[of examplePlatform datedPatch datedRow]
       example_dated_payload h ex_feb
  have 2: "ur_fecha_ultimo_movimiento datedRow = Some ''2026-02-01''" by simp
  from example_resolve_payload example_dated_payload h 1 2 show ?thesis by simp
qed

subsection \<open>Claim C4\<close>

lemma ex_evening:
  "todayISO eveningPlatform = ''2026-03-11''"
  "\<not> isFutureDate eveningPlatform ''2026-03-10''"
  "isFutureDate eveningPlatform ''2026-03-11''"
  "monthYearLabel eveningPlatform (nowMs eveningPlatform) = ''marzo de 2026''"
  "isoDate (nowMs eveningPlatform - 28800000) = ''2026-03-10''"
  by code_simp+

lemma example_evening_payload:
  "normalizeUpdatePayload eveningPlatform resolvePatch
     = Inr (resolveRow\<lparr>ur_fecha_ultimo_movimiento := Some ''2026-03-11''\<rparr>)"
  by (simp add: normalizeUpdatePayload_def andThen_def resolvePatch_def resolveRow_def
        emptyUpdate_def upd_folio_def upd_fecha_presentacion_def upd_tipo_derecho_def
        upd_autoridad_responsable_def upd_visitador_asignado_def upd_estado_def
        upd_notas_seguimiento_def upd_fecha_ultimo_movimiento_def upd_mes_registro_def
        upd_order_check_def upd_nonempty_check_def upd_touch_def shouldTouchLastMovement_def
        truthy_def emptyUpdateRow_def ex_estado ex_evening)

lemma example_evening_update:
  "updateExpediente memBackend eveningPlatform exampleState (e_id exampleExpediente) resolvePatch
     = (failWith ''La fecha de ultimo movimiento no puede ser futura.'', exampleState)"
proof -
  have s: "\<not> strLess ''2026-03-11'' ''2026-01-15''" by code_simp
  show ?thesis
    unfolding updateExpediente_def
    by (simp add: example_evening_payload exampleState_def exampleExpediente_def ex_uuid
          resolveRow_def emptyUpdateRow_def truthy_def orElse_def Let_def s ex_evening
          del: strLess.simps)
qed

text \<open>
  C4. The stamp is not always today's date. Eight hours west of UTC, at 18:00 of 10 March
  2026, the day is 10 March for \<open>isFutureDate\<close> (10 March is not future, 11 March is), but
  the validator stamps a patch that only resolves the case with 11 March, the UTC date, and
  \<open>updateExpediente\<close> then refuses the patch because its last-movement date is future:
  nothing is sent and the state stays as it was.
\<close>

theorem evening_status_change_stamped_tomorrow:
  "isoDate (nowMs eveningPlatform - 28800000) = ''2026-03-10''
   \<and> \<not> isFutureDate eveningPlatform ''2026-03-10''
   \<and> isFutureDate eveningPlatform ''2026-03-11''
   \<and> u_fecha_ultimo_movimiento resolvePatch = None
   \<and> u_estado resolvePatch = Some ''Resuelta''
   \<and> normalizeUpdatePayload eveningPlatform resolvePatch
       = Inr (resolveRow\<lparr>ur_fecha_ultimo_movimiento := Some ''2026-03-11''\<rparr>)
   \<and> updateExpediente memBackend eveningPlatform exampleState (e_id exampleExpediente)
        resolvePatch
       = (failWith ''La fecha de ultimo movimiento no puede ser futura.'', exampleState)"
  by (simp add: ex_evening example_evening_payload example_evening_update)
     (simp add: resolvePatch_def emptyUpdate_def)

subsection \<open>Claim C10\<close>

text \<open>
  C10, as amended. For an identifier that is present in the snapshot and has the shape
  \<open>isUuid\<close> accepts, \<open>updateExpediente\<close> with a patch that sets no field returns the error
  \<open>No hay cambios para guardar.\<close> without any network call and leaves the state unchanged.
\<close>

theorem update_empty_patch_rejected:
  "isUuid ident \<and> ident \<in> set (map e_id (st_expedientes st)) \<longrightarrow>
     updateExpediente B env st ident emptyUpdate = (failWith ''No hay cambios para guardar.'', st)"
proof
  assume a: "isUuid ident \<and> ident \<in> set (map e_id (st_expedientes st))"
  then obtain current where
    "find (\<lambda>item. e_id item = ident) (st_expedientes st) = Some current"
    using find_present by blast
  with a show "updateExpediente B env st ident emptyUpdate
                 = (failWith ''No hay cambios para guardar.'', st)"
    by (simp add: update_validation_error empty_update_rejected)
qed

text \<open>The stored example case and the empty patch.\<close>

theorem update_empty_patch_rejected_witness:
  "isUuid (e_id exampleExpediente)
   \<and> e_id exampleExpediente \<in> set (map e_id (st_expedientes exampleState))
   \<and> updateExpediente memBackend examplePlatform exampleState (e_id exampleExpediente) emptyUpdate
       = (failWith ''No hay cambios para guardar.'', exampleState)"
proof -
  have h: "isUuid (e_id exampleExpediente)"
    "e_id exampleExpediente \<in> set (map e_id (st_expedientes exampleState))"
    by (simp_all add: exampleExpediente_def exampleState_def ex_uuid)
  with update_empty_patch_rejected
         [of "e_id exampleExpediente" exampleState memBackend examplePlatform]
  show ?thesis by simp
qed

text \<open>
  C10 as stated fails for a row whose identifier is a version 7 UUID: the shape test comes
  first and refuses it, so the error is the invalid-identifier one.
\<close>

theorem update_empty_patch_counterexample:
  "version7Id \<in> set (map e_id (st_expedientes version7State))
   \<and> updateExpediente memBackend examplePlatform version7State version7Id emptyUpdate
       = (failWith ''Identificador de expediente invalido.'', version7State)"
  by (simp add: update_invalid_id ex_version7) (simp add: version7State_def)

subsection \<open>Sorting and cutting the notification list\<close>

lemma sortNewestFirst_sorted: "newestFirst (sortNewestFirst xs)"
  by (simp add: newestFirst_def sortNewestFirst_def)

lemma newestFirst_take: "newestFirst xs \<Longrightarrow> newestFirst (take k xs)"
  unfolding newestFirst_def by (simp add: take_map[symmetric] sorted_wrt_take)

lemma retained_within: "withinBound (retained xs)"
  by (simp add: withinBound_def retained_def newestFirst_take sortNewestFirst_sorted)

lemma retained_length: "length (retained xs) = min MAX_NOTIFICATIONS (length xs)"
  by (simp add: retained_def sortNewestFirst_def)

lemma newestFirst_split:
  assumes "newestFirst xs"
  shows "\<forall>x\<in>set (take k xs). \<forall>y\<in>set (drop k xs). n_timestamp y \<le> n_timestamp x"
proof -
  let ?f = "\<lambda>n. - n_timestamp n"
  have "map ?f (take k xs) @ map ?f (drop k xs) = map ?f xs"
    by (simp flip: map_append)
  then have "sorted (map ?f (take k xs) @ map ?f (drop k xs))"
    using assms by (simp only: newestFirst_def)
  then have "\<forall>a\<in>set (map ?f (take k xs)). \<forall>b\<in>set (map ?f (drop k xs)). a \<le> b"
    by (simp only: sorted_append) blast
  then show ?thesis by force
qed

lemma retained_newest:
  "mset (sortNewestFirst xs) = mset xs
   \<and> retained xs = take MAX_NOTIFICATIONS (sortNewestFirst xs)
   \<and> (\<forall>x\<in>set (retained xs). \<forall>y\<in>set (drop MAX_NOTIFICATIONS (sortNewestFirst xs)).
        n_timestamp y \<le> n_timestamp x)"
  using newestFirst_split[OF sortNewestFirst_sorted, of MAX_NOTIFICATIONS xs]
  by (simp add: retained_def sortNewestFirst_def)

lemma take_insort_take:
  "sorted (map f xs) \<Longrightarrow> 0 < m \<Longrightarrow>
     take m (insort_key f a (take m xs)) = take m (insort_key f a xs)"
proof (induction xs arbitrary: m)
  case Nil
  then show ?case by simp
next
  case (Cons x xs)
  from Cons.prems obtain k where m: "m = Suc k" by (cases m) auto
  show ?case
  proof (cases "f a \<le> f x")
    case True
    then show ?thesis using m by (cases k) auto
  next
    case False
    show ?thesis
    proof (cases k)
      case 0
      with False m show ?thesis by simp
    next
      case (Suc j)
      have "take k (insort_key f a (take k xs)) = take k (insort_key f a xs)"
        using Cons.IH[of k] Cons.prems Suc by simp
      with False m show ?thesis by simp
    qed
  qed
qed

lemma retained_Cons_retained: "retained (n # retained xs) = retained (n # xs)"
proof -
  let ?f = "\<lambda>n. - n_timestamp n"
  let ?S = "sort_key ?f xs"
  have s: "sorted (map ?f ?S)" by simp
  have st: "sorted (map ?f (take MAX_NOTIFICATIONS ?S))"
    by (simp add: take_map[symmetric] sorted_wrt_take)
  have "sort_key ?f (n # take MAX_NOTIFICATIONS ?S)
          = insort_key ?f n (take MAX_NOTIFICATIONS ?S)"
    using sort_key_id_if_sorted[OF st] by simp
  moreover have "take MAX_NOTIFICATIONS (insort_key ?f n (take MAX_NOTIFICATIONS ?S))
          = take MAX_NOTIFICATIONS (insort_key ?f n ?S)"
    by (rule take_insort_take[OF s]) (simp add: MAX_NOTIFICATIONS_def)
  ultimately show ?thesis by (simp add: retained_def sortNewestFirst_def)
qed

lemma addMany_Cons:
  "addMany (e # es) prev = addMany es (retained (eventNotification e # prev))"
  by (cases e) (simp add: addMany_def addNotification_def eventNotification_def)

lemma addMany_retained:
  "addMany es (retained acc) = retained (rev (map eventNotification es) @ acc)"
proof (induction es arbitrary: acc)
  case Nil
  then show ?case by (simp add: addMany_def)
next
  case (Cons e es)
  have "addMany (e # es) (retained acc) = addMany es (retained (eventNotification e # retained acc))"
    by (rule addMany_Cons)
  also have "\<dots> = addMany es (retained (eventNotification e # acc))"
    by (simp add: retained_Cons_retained)
  also have "\<dots> = retained (rev (map eventNotification es) @ eventNotification e # acc)"
    by (rule Cons.IH)
  finally show ?case by simp
qed

lemma addMany_nonempty:
  "es \<noteq> [] \<Longrightarrow> addMany es prev = retained (rev (map eventNotification es) @ prev)"
proof (cases es)
  case Nil
  then show "es \<noteq> [] \<Longrightarrow> ?thesis" by simp
next
  case (Cons e es')
  then show ?thesis using addMany_retained[of es' "eventNotification e # prev"]
    by (simp add: addMany_Cons)
qed

lemma upsert_within:
  "withinBound prev \<Longrightarrow> withinBound (upsertSystemNotification ident n t prev)"
  by (simp add: upsertSystemNotification_def retained_within split: option.splits)

lemma upsert_cut_newest:
  "(find (\<lambda>item. n_id item = ident) prev = None \<longrightarrow>
      upsertSystemNotification ident c now prev
        = take MAX_NOTIFICATIONS
            (sortNewestFirst (\<lparr> n_id = ident, n_type = si_type c, n_title = si_title c,
                                 n_message = si_message c, n_read = orElse (si_read c) False,
                                 n_timestamp = now \<rparr> # prev))
      \<and> (\<forall>x\<in>set (upsertSystemNotification ident c now prev).
           \<forall>y\<in>set (drop MAX_NOTIFICATIONS
                      (sortNewestFirst (\<lparr> n_id = ident, n_type = si_type c,
                                           n_title = si_title c, n_message = si_message c,
                                           n_read = orElse (si_read c) False,
                                           n_timestamp = now \<rparr> # prev))).
             n_timestamp y \<le> n_timestamp x))
   \<and> (\<forall>found. find (\<lambda>item. n_id item = ident) prev = Some found \<longrightarrow>
        (contentChanged found c \<longrightarrow>
           upsertSystemNotification ident c now prev
             = take MAX_NOTIFICATIONS
                 (sortNewestFirst (map (\<lambda>item. if n_id item \<noteq> ident then item
                                              else refreshed c now item) prev))
           \<and> (\<forall>x\<in>set (upsertSystemNotification ident c now prev).
                \<forall>y\<in>set (drop MAX_NOTIFICATIONS
                           (sortNewestFirst (map (\<lambda>item. if n_id item \<noteq> ident then item
                                                        else refreshed c now item) prev))).
                  n_timestamp y \<le> n_timestamp x))
        \<and> (\<not> contentChanged found c \<longrightarrow> upsertSystemNotification ident c now prev = prev))"
proof (intro conjI impI allI)
  assume f: "find (\<lambda>item. n_id item = ident) prev = None"
  let ?pool = "\<lparr> n_id = ident, n_type = si_type c, n_title = si_title c,
                  n_message = si_message c, n_read = orElse (si_read c) False,
                  n_timestamp = now \<rparr> # prev"
  have e: "upsertSystemNotification ident c now prev = retained ?pool"
    using f by (simp add: upsertSystemNotification_def)
  show "upsertSystemNotification ident c now prev
        = take MAX_NOTIFICATIONS (sortNewestFirst ?pool)"
    by (simp only: e retained_def)
  show "\<forall>x\<in>set (upsertSystemNotification ident c now prev).
           \<forall>y\<in>set (drop MAX_NOTIFICATIONS (sortNewestFirst ?pool)).
             n_timestamp y \<le> n_timestamp x"
    using retained_newest[of ?pool] by (simp add: e retained_def)
next
  fix found
  assume f: "find (\<lambda>item. n_id item = ident) prev = Some found"
  let ?pool = "map (\<lambda>item. if n_id item \<noteq> ident then item else refreshed c now item) prev"
  {
    assume ch: "contentChanged found c"
    have e: "upsertSystemNotification ident c now prev = retained ?pool"
      using f ch by (simp add: upsertSystemNotification_def)
    show "upsertSystemNotification ident c now prev
          = take MAX_NOTIFICATIONS (sortNewestFirst ?pool)"
      by (simp only: e retained_def)
    show "\<forall>x\<in>set (upsertSystemNotification ident c now prev).
             \<forall>y\<in>set (drop MAX_NOTIFICATIONS (sortNewestFirst ?pool)).
               n_timestamp y \<le> n_timestamp x"
      using retained_newest[of ?pool] by (simp add: e retained_def)
  }
  {
    assume "\<not> contentChanged found c"
    then show "upsertSystemNotification ident c now prev = prev"
      using f by (simp add: upsertSystemNotification_def)
  }
qed

subsection \<open>The branches of the upsert\<close>

lemma find_filter_single:
  "distinct (map f xs) \<Longrightarrow> find (\<lambda>x. f x = k) xs = Some e \<Longrightarrow> filter (\<lambda>x. f x = k) xs = [e]"
proof (induction xs)
  case Nil
  then show ?case by simp
next
  case (Cons x xs)
  show ?case
  proof (cases "f x = k")
    case True
    with Cons.prems have "e = x" by simp
    moreover have "f x \<notin> f ` set xs" using Cons.prems(1) by simp
    then have "\<forall>y\<in>set xs. \<not> f y = k" using True by blast
    then have "filter (\<lambda>y. f y = k) xs = []" by (rule filter_False)
    ultimately show ?thesis using True by simp
  next
    case False
    with Cons show ?thesis by simp
  qed
qed

lemma filter_single_find: "filter P xs = [e] \<Longrightarrow> find P xs = Some e"
proof (induction xs)
  case Nil
  then show ?case by simp
next
  case (Cons x xs)
  then show ?case by (cases "P x") auto
qed

lemma find_None_filter: "find P xs = None \<Longrightarrow> filter P xs = []"
  by (induction xs) (auto split: if_splits)

lemma refreshed_id: "n_id (refreshed c t item) = n_id item"
  by (simp add: refreshed_def)

lemma refreshed_unchanged: "\<not> contentChanged (refreshed c t item) c"
  by (cases "si_read c") (simp_all add: contentChanged_def refreshed_def orElse_def)

lemma created_unchanged:
  "\<not> contentChanged \<lparr> n_id = k, n_type = si_type c, n_title = si_title c,
                       n_message = si_message c, n_read = orElse (si_read c) False,
                       n_timestamp = t \<rparr> c"
  by (cases "si_read c") (simp_all add: contentChanged_def orElse_def)

text \<open>The branch that creates the entry.\<close>

lemma upsert_creates:
  assumes nf: "find (\<lambda>item. n_id item = k) prev = None"
    and old: "\<forall>x\<in>set prev. n_timestamp x \<le> t"
  shows "upsertSystemNotification k c t prev
           = \<lparr> n_id = k, n_type = si_type c, n_title = si_title c,
                       n_message = si_message c, n_read = orElse (si_read c) False,
                       n_timestamp = t \<rparr>
             # take (MAX_NOTIFICATIONS - 1) (sortNewestFirst prev)"
proof -
  let ?f = "\<lambda>n. - n_timestamp n"
  let ?c = "\<lparr> n_id = k, n_type = si_type c, n_title = si_title c,
                       n_message = si_message c, n_read = orElse (si_read c) False,
                       n_timestamp = t \<rparr>"
  have "\<forall>x\<in>set (sort_key ?f prev). ?f ?c \<le> ?f x" using old by simp
  then have "insort_key ?f ?c (sort_key ?f prev) = ?c # sort_key ?f prev"
    by (rule insort_is_Cons)
  then have "sortNewestFirst (?c # prev) = ?c # sortNewestFirst prev"
    by (simp add: sortNewestFirst_def)
  then show ?thesis
    using nf by (simp add: upsertSystemNotification_def retained_def MAX_NOTIFICATIONS_def)
qed

text \<open>The branch that refreshes the entry: nothing is cut from a list within the bound.\<close>

lemma upsert_refreshes:
  assumes f: "find (\<lambda>item. n_id item = k) prev = Some found"
    and ch: "contentChanged found c"
    and len: "length prev \<le> MAX_NOTIFICATIONS"
  shows "upsertSystemNotification k c t prev
           = sortNewestFirst (map (\<lambda>item. if n_id item \<noteq> k then item else refreshed c t item) prev)"
  using f ch len by (simp add: upsertSystemNotification_def retained_def sortNewestFirst_def)

lemma refreshed_list_filter:
  assumes d: "distinct (map n_id prev)"
    and f: "find (\<lambda>item. n_id item = k) prev = Some found"
  shows "filter (\<lambda>x. n_id x = k)
           (sortNewestFirst (map (\<lambda>item. if n_id item \<noteq> k then item else refreshed c t item) prev))
         = [refreshed c t found]"
proof -
  let ?g = "\<lambda>item. if n_id item \<noteq> k then item else refreshed c t item"
  have id: "\<And>x. n_id (?g x) = n_id x" by (simp add: refreshed_id)
  have "filter (\<lambda>x. n_id x = k) (map ?g prev) = map ?g (filter (\<lambda>x. n_id x = k) prev)"
    by (simp add: filter_map comp_def id)
  also have "\<dots> = [?g found]" using find_filter_single[OF d f] by simp
  also have "?g found = refreshed c t found"
    using f by (auto dest: find_Some_iff[THEN iffD1])
  finally have "filter (\<lambda>x. n_id x = k) (map ?g prev) = [refreshed c t found]" .
  then show ?thesis by (simp add: sortNewestFirst_def filter_sort)
qed

lemma sorted_hd_min:
  assumes "sorted (map f xs)" and "y \<in> set xs"
  shows "f (hd xs) \<le> f y"
  using assms by (cases xs) auto

lemma refreshed_at_front:
  assumes d: "distinct (map n_id prev)"
    and f: "find (\<lambda>item. n_id item = k) prev = Some found"
    and strict: "\<forall>x\<in>set prev. n_id x \<noteq> k \<longrightarrow> n_timestamp x < t"
  shows "hd (sortNewestFirst (map (\<lambda>item. if n_id item \<noteq> k then item else refreshed c t item) prev))
         = refreshed c t found"
proof -
  let ?g = "\<lambda>item. if n_id item \<noteq> k then item else refreshed c t item"
  let ?f = "\<lambda>n. - n_timestamp n"
  let ?S = "sortNewestFirst (map ?g prev)"
  have fin: "found \<in> set prev" and fid: "n_id found = k"
    using f by (auto simp: find_Some_iff)
  have usome: "refreshed c t found \<in> set ?S"
    using fin fid by (force simp: sortNewestFirst_def)
  then have ne: "?S \<noteq> []" by auto
  then have hin: "hd ?S \<in> set (map ?g prev)"
    using hd_in_set[OF ne] by (simp add: sortNewestFirst_def)
  have "sorted (map ?f ?S)" by (simp add: sortNewestFirst_def)
  from sorted_hd_min[OF this usome]
  have le: "n_timestamp (refreshed c t found) \<le> n_timestamp (hd ?S)" by simp
  have ts: "n_timestamp (refreshed c t found) = t" by (simp add: refreshed_def)
  from hin obtain x where x: "x \<in> set prev" and hx: "hd ?S = ?g x" by auto
  show ?thesis
  proof (cases "n_id x = k")
    case True
    have "x = found"
      using d x fin fid True by (meson distinct_map inj_onD)
    with hx True show ?thesis by simp
  next
    case False
    with strict x have "n_timestamp x < t" by blast
    moreover from hx False have "hd ?S = x" by simp
    ultimately show ?thesis using le ts by simp
  qed
qed

subsection \<open>The notification examples, evaluated\<close>

lemma example_planner_changed: "contentChanged plannerEntry plannerChanged"
  by (simp add: contentChanged_def plannerEntry_def plannerChanged_def)

lemma example_upsert_tie:
  "upsertSystemNotification ''system-daily-planner'' plannerChanged 200
     [staleEntry 200, plannerEntry]
   = [staleEntry 200, refreshed plannerChanged 200 plannerEntry]"
  by (simp add: upsertSystemNotification_def example_planner_changed retained_def
        sortNewestFirst_def MAX_NOTIFICATIONS_def refreshed_def)
     (simp add: staleEntry_def plannerEntry_def)

lemma example_full_add:
  "newNotification sampleInput ''x'' 100 \<in> set (addNotification sampleInput ''x'' 100 fullList)"
  "eventNotification (sampleInput, ''1'', 1)
     \<in> set (drop MAX_NOTIFICATIONS
              (sortNewestFirst (newNotification sampleInput ''x'' 100 # fullList)))"
  by code_simp+

lemma example_full_upsert:
  "find (\<lambda>item. n_id item = ''system-stale-cases'') fullList = None"
  "staleEntry 100 \<in> set (upsertSystemNotification ''system-stale-cases'' staleInput 100 fullList)"
  "eventNotification (sampleInput, ''1'', 1)
     \<in> set (drop MAX_NOTIFICATIONS (sortNewestFirst (staleEntry 100 # fullList)))"
  "\<lparr> n_id = ''system-stale-cases'', n_type = si_type staleInput, n_title = si_title staleInput,
      n_message = si_message staleInput, n_read = orElse (si_read staleInput) False,
      n_timestamp = 100 \<rparr> = staleEntry 100"
  by code_simp+

lemma example_within: "withinBound [staleEntry 150, plannerEntry]"
  by (simp add: withinBound_def newestFirst_def MAX_NOTIFICATIONS_def staleEntry_def
        plannerEntry_def)

subsection \<open>Claim C7\<close>

text \<open>
  C7, as amended. On a list with distinct ids, at most 80 entries and no timestamp later
  than the clock, calling \<open>upsertSystemNotification\<close> twice with the same key and the same
  content leaves exactly one entry for the key, and the second call changes nothing (so not
  the timestamp). Calling it with changed content rewrites that one entry (type, title,
  message, read flag, timestamp set to now), leaves every other entry as it was, and sorts
  the list again: the entry is at the front when every other entry is strictly older than
  now. (An entry with the same timestamp that stood before it stays before it.)
\<close>

theorem upsert_idempotent_and_refreshing:
  "distinct (map n_id prev) \<and> length prev \<le> MAX_NOTIFICATIONS
     \<and> (\<forall>x\<in>set prev. n_timestamp x \<le> t1)
   \<longrightarrow>
     upsertSystemNotification k c t2 (upsertSystemNotification k c t1 prev)
       = upsertSystemNotification k c t1 prev
     \<and> length (filter (\<lambda>x. n_id x = k) (upsertSystemNotification k c t1 prev)) = 1
     \<and> (\<forall>found. find (\<lambda>item. n_id item = k) prev = Some found \<and> contentChanged found c
          \<longrightarrow> filter (\<lambda>x. n_id x = k) (upsertSystemNotification k c t1 prev)
                 = [refreshed c t1 found]
              \<and> mset (upsertSystemNotification k c t1 prev)
                 = mset (map (\<lambda>item. if n_id item \<noteq> k then item else refreshed c t1 item) prev)
              \<and> ((\<forall>x\<in>set prev. n_id x \<noteq> k \<longrightarrow> n_timestamp x < t1)
                  \<longrightarrow> hd (upsertSystemNotification k c t1 prev) = refreshed c t1 found))"
proof
  assume a: "distinct (map n_id prev) \<and> length prev \<le> MAX_NOTIFICATIONS
     \<and> (\<forall>x\<in>set prev. n_timestamp x \<le> t1)"
  then have d: "distinct (map n_id prev)" and len: "length prev \<le> MAX_NOTIFICATIONS"
    and old: "\<forall>x\<in>set prev. n_timestamp x \<le> t1" by simp_all
  let ?s1 = "upsertSystemNotification k c t1 prev"
  have changed: "filter (\<lambda>x. n_id x = k) ?s1 = [refreshed c t1 found]
              \<and> mset ?s1
                 = mset (map (\<lambda>item. if n_id item \<noteq> k then item else refreshed c t1 item) prev)
              \<and> ((\<forall>x\<in>set prev. n_id x \<noteq> k \<longrightarrow> n_timestamp x < t1)
                  \<longrightarrow> hd ?s1 = refreshed c t1 found)"
    if f: "find (\<lambda>item. n_id item = k) prev = Some found" and ch: "contentChanged found c"
    for found
    using upsert_refreshes[OF f ch len, of t1] refreshed_list_filter[OF d f, of c t1]
      refreshed_at_front[OF d f, of t1 c]
    by (simp add: sortNewestFirst_def)
  have idem: "upsertSystemNotification k c t2 ?s1 = ?s1
     \<and> length (filter (\<lambda>x. n_id x = k) ?s1) = 1"
  proof (cases "find (\<lambda>item. n_id item = k) prev")
    case None
    let ?c = "\<lparr> n_id = k, n_type = si_type c, n_title = si_title c,
                       n_message = si_message c, n_read = orElse (si_read c) False,
                       n_timestamp = t1 \<rparr>"
    let ?rest = "take (MAX_NOTIFICATIONS - 1) (sortNewestFirst prev)"
    have s1: "?s1 = ?c # ?rest" by (rule upsert_creates[OF None old])
    have "filter (\<lambda>x. n_id x = k) prev = []" using None by (rule find_None_filter)
    then have "\<forall>x\<in>set prev. n_id x \<noteq> k" by (simp add: filter_empty_conv)
    then have "\<forall>x\<in>set ?rest. n_id x \<noteq> k"
      by (metis in_set_takeD set_sort sortNewestFirst_def)
    then have "filter (\<lambda>x. n_id x = k) ?rest = []" by (simp add: filter_empty_conv)
    then have one: "length (filter (\<lambda>x. n_id x = k) ?s1) = 1" by (simp add: s1)
    have "upsertSystemNotification k c t2 (?c # ?rest) = ?c # ?rest"
      using created_unchanged[of k c t1] by (simp add: upsertSystemNotification_def)
    with one s1 show ?thesis by simp
  next
    case (Some found)
    show ?thesis
    proof (cases "contentChanged found c")
      case False
      with Some have s1: "?s1 = prev" by (simp add: upsertSystemNotification_def)
      then have "upsertSystemNotification k c t2 ?s1 = ?s1"
        using Some False by (simp add: upsertSystemNotification_def)
      moreover have "length (filter (\<lambda>x. n_id x = k) ?s1) = 1"
        using find_filter_single[OF d Some] s1 by simp
      ultimately show ?thesis by simp
    next
      case True
      from changed[OF Some True]
      have fl: "filter (\<lambda>x. n_id x = k) ?s1 = [refreshed c t1 found]" by simp
      then have "find (\<lambda>x. n_id x = k) ?s1 = Some (refreshed c t1 found)"
        by (rule filter_single_find)
      then have "upsertSystemNotification k c t2 ?s1 = ?s1"
        using refreshed_unchanged[of c t1 found]
        by (simp add: upsertSystemNotification_def[of k c t2])
      with fl show ?thesis by simp
    qed
  qed
  from idem changed
  show "upsertSystemNotification k c t2 ?s1 = ?s1
     \<and> length (filter (\<lambda>x. n_id x = k) ?s1) = 1
     \<and> (\<forall>found. find (\<lambda>item. n_id item = k) prev = Some found \<and> contentChanged found c
          \<longrightarrow> filter (\<lambda>x. n_id x = k) ?s1 = [refreshed c t1 found]
              \<and> mset ?s1
                 = mset (map (\<lambda>item. if n_id item \<noteq> k then item else refreshed c t1 item) prev)
              \<and> ((\<forall>x\<in>set prev. n_id x \<noteq> k \<longrightarrow> n_timestamp x < t1)
                  \<longrightarrow> hd ?s1 = refreshed c t1 found))"
    by blast
qed

text \<open>The planner notification refreshed at 200 and upserted again at 300.\<close>

theorem upsert_idempotent_and_refreshing_witness:
  "distinct (map n_id [staleEntry 150, plannerEntry])
   \<and> length [staleEntry 150, plannerEntry] \<le> MAX_NOTIFICATIONS
   \<and> find (\<lambda>item. n_id item = ''system-daily-planner'') [staleEntry 150, plannerEntry]
       = Some plannerEntry
   \<and> contentChanged plannerEntry plannerChanged
   \<and> upsertSystemNotification ''system-daily-planner'' plannerChanged 300
        (upsertSystemNotification ''system-daily-planner'' plannerChanged 200
           [staleEntry 150, plannerEntry])
       = upsertSystemNotification ''system-daily-planner'' plannerChanged 200
           [staleEntry 150, plannerEntry]
   \<and> filter (\<lambda>x. n_id x = ''system-daily-planner'')
        (upsertSystemNotification ''system-daily-planner'' plannerChanged 200
           [staleEntry 150, plannerEntry])
       = [refreshed plannerChanged 200 plannerEntry]
   \<and> hd (upsertSystemNotification ''system-daily-planner'' plannerChanged 200
            [staleEntry 150, plannerEntry])
       = refreshed plannerChanged 200 plannerEntry"
proof -
  let ?L = "[staleEntry 150, plannerEntry]"
  have d: "distinct (map n_id ?L)" by (simp add: staleEntry_def plannerEntry_def)
  have l: "length ?L \<le> MAX_NOTIFICATIONS" by (simp add: MAX_NOTIFICATIONS_def)
  have o: "\<forall>x\<in>set ?L. n_timestamp x \<le> 200" by (simp add: staleEntry_def plannerEntry_def)
  have f: "find (\<lambda>item. n_id item = ''system-daily-planner'') ?L = Some plannerEntry"
    by (simp add: staleEntry_def plannerEntry_def)
  have s: "\<forall>x\<in>set ?L. n_id x \<noteq> ''system-daily-planner'' \<longrightarrow> n_timestamp x < 200"
    by (simp add: staleEntry_def plannerEntry_def)
  from upsert_idempotent_and_refreshing
         [of ?L 200 "''system-daily-planner''" plannerChanged 300] d l o
  have t: "upsertSystemNotification ''system-daily-planner'' plannerChanged 300
        (upsertSystemNotification ''system-daily-planner'' plannerChanged 200 ?L)
       = upsertSystemNotification ''system-daily-planner'' plannerChanged 200 ?L
     \<and> (\<forall>found. find (\<lambda>item. n_id item = ''system-daily-planner'') ?L = Some found
                 \<and> contentChanged found plannerChanged
          \<longrightarrow> filter (\<lambda>x. n_id x = ''system-daily-planner'')
                 (upsertSystemNotification ''system-daily-planner'' plannerChanged 200 ?L)
                 = [refreshed plannerChanged 200 found]
              \<and> ((\<forall>x\<in>set ?L. n_id x \<noteq> ''system-daily-planner'' \<longrightarrow> n_timestamp x < 200)
                  \<longrightarrow> hd (upsertSystemNotification ''system-daily-planner'' plannerChanged 200 ?L)
                      = refreshed plannerChanged 200 found))"
    by blast
  then have "filter (\<lambda>x. n_id x = ''system-daily-planner'')
                 (upsertSystemNotification ''system-daily-planner'' plannerChanged 200 ?L)
                 = [refreshed plannerChanged 200 plannerEntry]
              \<and> hd (upsertSystemNotification ''system-daily-planner'' plannerChanged 200 ?L)
                      = refreshed plannerChanged 200 plannerEntry"
    using f example_planner_changed s by blast
  with t d l f example_planner_changed show ?thesis by blast
qed

text \<open>
  C7 as stated fails on a tie: the layout's effect refreshes two system notifications in
  the same millisecond, and the second one, although changed, stays behind the first.
\<close>

theorem upsert_changed_not_at_front_counterexample:
  "find (\<lambda>item. n_id item = ''system-daily-planner'') [staleEntry 200, plannerEntry]
     = Some plannerEntry
   \<and> contentChanged plannerEntry plannerChanged
   \<and> upsertSystemNotification ''system-daily-planner'' plannerChanged 200
        [staleEntry 200, plannerEntry]
       = [staleEntry 200, refreshed plannerChanged 200 plannerEntry]
   \<and> hd (upsertSystemNotification ''system-daily-planner'' plannerChanged 200
            [staleEntry 200, plannerEntry])
       \<noteq> refreshed plannerChanged 200 plannerEntry"
proof -
  have f: "find (\<lambda>item. n_id item = ''system-daily-planner'') [staleEntry 200, plannerEntry]
     = Some plannerEntry"
    by (simp add: staleEntry_def plannerEntry_def)
  have ne: "staleEntry 200 \<noteq> refreshed plannerChanged 200 plannerEntry"
    by (simp add: staleEntry_def refreshed_def plannerEntry_def)
  from f example_planner_changed example_upsert_tie ne show ?thesis by simp
qed

subsection \<open>Claim C8\<close>

text \<open>
  C8. After \<open>addNotification\<close> the list holds at most 80 entries, newest first, and no
  entry that was cut is newer than an entry that was kept. \<open>upsertSystemNotification\<close>
  keeps within the bound a list that is within it; when it writes (a new key, or a key whose
  content changed) its result is the first 80 of the written list sorted newest first, so no
  entry it cut is newer than an entry it kept, and when the content is the same it returns
  the list as it was. The initial list \<open>loadNotifications\<close> builds is within the bound.
  After 100 insertions exactly 80 entries remain: the first 80 of all the entries sorted
  newest first.
\<close>

theorem notifications_bounded_newest_first:
  "withinBound (addNotification n newId now prev)
   \<and> (\<forall>x\<in>set (addNotification n newId now prev).
         \<forall>y\<in>set (drop MAX_NOTIFICATIONS (sortNewestFirst (newNotification n newId now # prev))).
           n_timestamp y \<le> n_timestamp x)
   \<and> (withinBound prev \<longrightarrow> withinBound (upsertSystemNotification ident c now prev))
   \<and> (length events = 100 \<longrightarrow>
        length (addMany events prev) = 80
        \<and> addMany events prev
            = take 80 (sortNewestFirst (rev (map eventNotification events) @ prev)))
   \<and> withinBound (loadNotifications stored)
   \<and> (find (\<lambda>item. n_id item = ident) prev = None \<longrightarrow>
        upsertSystemNotification ident c now prev
          = take MAX_NOTIFICATIONS
              (sortNewestFirst (\<lparr> n_id = ident, n_type = si_type c, n_title = si_title c,
                                   n_message = si_message c, n_read = orElse (si_read c) False,
                                   n_timestamp = now \<rparr> # prev))
        \<and> (\<forall>x\<in>set (upsertSystemNotification ident c now prev).
             \<forall>y\<in>set (drop MAX_NOTIFICATIONS
                        (sortNewestFirst (\<lparr> n_id = ident, n_type = si_type c,
                                             n_title = si_title c, n_message = si_message c,
                                             n_read = orElse (si_read c) False,
                                             n_timestamp = now \<rparr> # prev))).
               n_timestamp y \<le> n_timestamp x))
   \<and> (\<forall>found. find (\<lambda>item. n_id item = ident) prev = Some found \<longrightarrow>
        (contentChanged found c \<longrightarrow>
           upsertSystemNotification ident c now prev
             = take MAX_NOTIFICATIONS
                 (sortNewestFirst (map (\<lambda>item. if n_id item \<noteq> ident then item
                                              else refreshed c now item) prev))
           \<and> (\<forall>x\<in>set (upsertSystemNotification ident c now prev).
                \<forall>y\<in>set (drop MAX_NOTIFICATIONS
                           (sortNewestFirst (map (\<lambda>item. if n_id item \<noteq> ident then item
                                                        else refreshed c now item) prev))).
                  n_timestamp y \<le> n_timestamp x))
        \<and> (\<not> contentChanged found c \<longrightarrow> upsertSystemNotification ident c now prev = prev))"
proof -
  have load: "withinBound (loadNotifications stored)"
  proof (cases stored)
    case None
    then show ?thesis by (simp add: loadNotifications_def withinBound_def newestFirst_def)
  next
    case (Some parsed)
    then show ?thesis by (simp add: loadNotifications_def retained_within)
  qed
  have add1: "withinBound (addNotification n newId now prev)"
    by (simp add: addNotification_def retained_within)
  have add2: "\<forall>x\<in>set (addNotification n newId now prev).
         \<forall>y\<in>set (drop MAX_NOTIFICATIONS (sortNewestFirst (newNotification n newId now # prev))).
           n_timestamp y \<le> n_timestamp x"
    using retained_newest[of "newNotification n newId now # prev"]
    by (simp add: addNotification_def)
  have up: "withinBound prev \<longrightarrow> withinBound (upsertSystemNotification ident c now prev)"
    using upsert_within[of prev ident c now] by blast
  have many: "length events = 100 \<longrightarrow>
        length (addMany events prev) = 80
        \<and> addMany events prev
            = take 80 (sortNewestFirst (rev (map eventNotification events) @ prev))"
  proof
    assume l: "length events = 100"
    then have ne: "events \<noteq> []" by auto
    have e: "addMany events prev = retained (rev (map eventNotification events) @ prev)"
      by (rule addMany_nonempty[OF ne])
    have "length (addMany events prev) = 80"
      using l by (simp add: e retained_length MAX_NOTIFICATIONS_def)
    moreover have "addMany events prev
            = take 80 (sortNewestFirst (rev (map eventNotification events) @ prev))"
      by (simp add: e retained_def MAX_NOTIFICATIONS_def)
    ultimately show "length (addMany events prev) = 80
        \<and> addMany events prev
            = take 80 (sortNewestFirst (rev (map eventNotification events) @ prev))"
      by (rule conjI)
  qed
  from add1 add2 up many load upsert_cut_newest[of ident prev c now] show ?thesis
    by (intro conjI) (elim conjE, assumption)+
qed

text \<open>
  A hundred insertions into the empty list, an upsert into a list of two, an insertion into
  the full list, which cuts the entry stamped 1, and an upsert of a new key into the full
  list, which cuts the same entry.
\<close>

theorem notifications_bounded_newest_first_witness:
  "length (sampleEvents 100) = 100
   \<and> length (addMany (sampleEvents 100) []) = 80
   \<and> withinBound [staleEntry 150, plannerEntry]
   \<and> withinBound (upsertSystemNotification ''system-daily-planner'' plannerChanged 200
                    [staleEntry 150, plannerEntry])
   \<and> newNotification sampleInput ''x'' 100 \<in> set (addNotification sampleInput ''x'' 100 fullList)
   \<and> eventNotification (sampleInput, ''1'', 1)
       \<in> set (drop MAX_NOTIFICATIONS
                (sortNewestFirst (newNotification sampleInput ''x'' 100 # fullList)))
   \<and> n_timestamp (eventNotification (sampleInput, ''1'', 1))
       \<le> n_timestamp (newNotification sampleInput ''x'' 100)
   \<and> find (\<lambda>item. n_id item = ''system-stale-cases'') fullList = None
   \<and> staleEntry 100
       \<in> set (upsertSystemNotification ''system-stale-cases'' staleInput 100 fullList)
   \<and> eventNotification (sampleInput, ''1'', 1)
       \<in> set (drop MAX_NOTIFICATIONS (sortNewestFirst (staleEntry 100 # fullList)))
   \<and> n_timestamp (eventNotification (sampleInput, ''1'', 1)) \<le> n_timestamp (staleEntry 100)"
proof -
  have l: "length (sampleEvents 100) = 100" by (simp add: sampleEvents_def)
  note t1 = notifications_bounded_newest_first
              [of sampleInput "''x''" 100 fullList "''system-daily-planner''" plannerChanged
                  "sampleEvents 100"]
  note t2 = notifications_bounded_newest_first
              [of sampleInput "''x''" 200 "[staleEntry 150, plannerEntry]"
                  "''system-daily-planner''" plannerChanged "sampleEvents 100"]
  note t3 = notifications_bounded_newest_first
              [of sampleInput "''x''" 100 "[]" "''system-daily-planner''" plannerChanged
                  "sampleEvents 100"]
  note t4 = notifications_bounded_newest_first
              [of sampleInput "''x''" 100 fullList "''system-stale-cases''" staleInput
                  "sampleEvents 100"]
  from t3 l have a: "length (addMany (sampleEvents 100) []) = 80" by blast
  from t2 example_within
  have b: "withinBound (upsertSystemNotification ''system-daily-planner'' plannerChanged 200
                    [staleEntry 150, plannerEntry])" by blast
  from t1 example_full_add
  have c: "n_timestamp (eventNotification (sampleInput, ''1'', 1))
       \<le> n_timestamp (newNotification sampleInput ''x'' 100)" by blast
  from t4 example_full_upsert(1)
  have "\<forall>x\<in>set (upsertSystemNotification ''system-stale-cases'' staleInput 100 fullList).
          \<forall>y\<in>set (drop MAX_NOTIFICATIONS
                     (sortNewestFirst
                        (\<lparr> n_id = ''system-stale-cases'', n_type = si_type staleInput,
                            n_title = si_title staleInput, n_message = si_message staleInput,
                            n_read = orElse (si_read staleInput) False,
                            n_timestamp = 100 \<rparr> # fullList))).
            n_timestamp y \<le> n_timestamp x" by blast
  then have "\<forall>x\<in>set (upsertSystemNotification ''system-stale-cases'' staleInput 100 fullList).
          \<forall>y\<in>set (drop MAX_NOTIFICATIONS (sortNewestFirst (staleEntry 100 # fullList))).
            n_timestamp y \<le> n_timestamp x"
    by (simp only: example_full_upsert(4))
  with example_full_upsert(2,3)
  have d: "n_timestamp (eventNotification (sampleInput, ''1'', 1)) \<le> n_timestamp (staleEntry 100)"
    by blast
  from l a example_within b example_full_add c example_full_upsert(1,2,3) d show ?thesis
    by blast
qed

subsection \<open>Claim C5\<close>

lemma ex_normalizeEstado:
  "normalizeEstado EN_INTEGRACION = ''En integracion''"
  "normalizeEstado ''En integracion'' = ''En integracion''"
  "EN_INTEGRACION \<noteq> ''En integracion''"
  "''En integracion'' \<noteq> EN_INTEGRACION"
  "EN_INTEGRACION \<noteq> ''Todos''"
  by code_simp+

text \<open>
  C5. Two cases in the same state, stored under the accented and the unaccented spelling,
  are not one state for every projection: the report counts them in two buckets, one per
  spelling, and the list filter set to the accented spelling shows only the accented case.
  The dashboard does merge them: it counts both under one label.
\<close>

theorem status_counts_split_spellings:
  "reportByEstado (\<lambda>e. True) [accentedCase, plainCase]
     = [(EN_INTEGRACION, 1), (''En integracion'', 1)]
   \<and> filter (matchEstado EN_INTEGRACION) [accentedCase, plainCase]
       = [accentedCase]
   \<and> dashboardEstadoData [accentedCase, plainCase] = [(''En integracion'', 2)]"
  by (simp add: reportByEstado_def dashboardEstadoData_def countBy_def matchEstado_def
        accentedCase_def plainCase_def ex_normalizeEstado)

subsection \<open>The import, record by record\<close>


lemma allOf_Inr: "allOf (map Inr xs) = Inr xs"
  by (induction xs) (simp_all add: andThen_def)






































subsection \<open>Claim C9\<close>




end
